theory Spec2Isabelle
  imports Main
begin

section \<open>JavaScript values\<close>

text \<open>
  The values that travel through the provider: request bodies, response bodies, tokens,
  error and message lists. An object is an association list in property order; a
  property whose value is \<open>JUndefined\<close> is present with the value \<open>undefined\<close>,
  which differs from a property that is not there.
\<close>

datatype jsval =
    JUndefined
  | JNull
  | JBool bool
  | JNum int
  | JStr string
  | JArr "jsval list"
  | JObj "(string \<times> jsval) list"

text \<open>JavaScript's conversion to boolean, as used by \<open>if (x)\<close> and \<open>!x\<close>.\<close>

fun truthy :: "jsval \<Rightarrow> bool" where
  "truthy JUndefined = False"
| "truthy JNull = False"
| "truthy (JBool b) = b"
| "truthy (JNum n) = (n \<noteq> 0)"
| "truthy (JStr s) = (s \<noteq> [])"
| "truthy (JArr xs) = True"
| "truthy (JObj kvs) = True"

text \<open>
  A configuration flag that may be missing: \<open>None\<close> is the absent key, which
  \<open>if (this.getConfigValue('requestPass.alwaysFail'))\<close> treats as false.
\<close>

fun truthy_flag :: "bool option \<Rightarrow> bool" where
  "truthy_flag None = False"
| "truthy_flag (Some b) = b"

text \<open>
  \<open>a + b\<close> on two configuration values that are each a string or \<open>null\<close>
  (\<open>None\<close>): string concatenation, with \<open>null\<close> converted to the text
  \<open>null\<close>; \<open>null + null\<close> is the number 0.
\<close>

fun js_plus :: "string option \<Rightarrow> string option \<Rightarrow> jsval" where
  "js_plus (Some a) (Some b) = JStr (a @ b)"
| "js_plus (Some a) None = JStr (a @ ''null'')"
| "js_plus None (Some b) = JStr (''null'' @ b)"
| "js_plus None None = JNum 0"

text \<open>
  \<open>data[key] = v\<close> on an object: an existing property keeps its place and gets the
  new value, a new property goes last.
\<close>

fun set_prop :: "(string \<times> jsval) list \<Rightarrow> string \<Rightarrow> jsval \<Rightarrow> (string \<times> jsval) list" where
  "set_prop [] k v = [(k, v)]"
| "set_prop ((k', v') # kvs) k v =
     (if k' = k then (k, v) # kvs else (k', v') # set_prop kvs k v)"

text \<open>\<open>obj[key]\<close>: the value of the property, \<open>undefined\<close> when there is none.\<close>

definition get_prop :: "(string \<times> jsval) list \<Rightarrow> string \<Rightarrow> jsval" where
  "get_prop kvs k = (case map_of kvs k of None \<Rightarrow> JUndefined | Some v \<Rightarrow> v)"

section \<open>Responses, failures and the result object\<close>

text \<open>
  What flows down an action's pipeline or is thrown in it: the transport's
  \<open>HttpResponse\<close> (status, body), its \<open>HttpErrorResponse\<close> (status, error), the
  literal \<open>{}\<close> that \<open>logout\<close> starts from, and a JavaScript \<open>Error\<close> with its
  message. \<open>res instanceof HttpErrorResponse\<close> is the test for the second constructor.
\<close>

datatype pipe_val =
    HttpResponse int jsval
  | HttpErrorResponse int jsval
  | EmptyObject
  | Error string

fun isHttpErrorResponse :: "pipe_val \<Rightarrow> bool" where
  "isHttpErrorResponse (HttpErrorResponse st e) = True"
| "isHttpErrorResponse v = False"

text \<open>\<open>res.body\<close> and \<open>res.error\<close>: \<open>undefined\<close> on a value without the property.\<close>

fun body_of :: "pipe_val \<Rightarrow> jsval" where
  "body_of (HttpResponse st b) = b"
| "body_of v = JUndefined"

fun error_of :: "pipe_val \<Rightarrow> jsval" where
  "error_of (HttpErrorResponse st e) = e"
| "error_of v = JUndefined"

text \<open>
  Modelled from the spec: the class \<open>NbAuthResult\<close> (\<open>../services/auth-result\<close>) is
  imported by the provider and not part of the source at hand. The record holds the
  arguments of \<open>new NbAuthResult(success, response, redirect, errors, messages, token)\<close>
  in the constructor's order, the spec's fields of Result; an argument the call leaves
  out is \<open>None\<close>. The redirect is a string or \<open>null\<close> (\<open>None\<close>).
\<close>

record NbAuthResult =
  success :: bool
  response :: pipe_val
  redirect :: "string option"
  errors :: jsval
  messages :: "jsval option"
  token :: "jsval option"

section \<open>Configuration\<close>

text \<open>The six actions; the source names them by the strings of its configuration keys.\<close>

datatype auth_module = Login | Register | Logout | RequestPass | ResetPass | RefreshToken

text \<open>
  One action's block of \<open>defaultConfig\<close>. \<open>redirect_success\<close> is the key
  \<open>redirect.success\<close>. Keys that only some actions have (\<open>alwaysFail\<close>,
  \<open>rememberMe\<close>, \<open>resetPasswordTokenKey\<close>) are \<open>None\<close> where they are missing;
  an endpoint or a redirect can be \<open>null\<close> (\<open>None\<close>).
\<close>

record module_options =
  alwaysFail :: "bool option"
  rememberMe :: "bool option"
  endpoint :: "string option"
  http_method :: string
  redirect_success :: "string option"
  redirect_failure :: "string option"
  resetPasswordTokenKey :: "string option"
  defaultErrors :: "string list"
  defaultMessages :: "string list"

text \<open>
  The merged configuration. \<open>token_key\<close> is the key \<open>token.key\<close>, and so on. A getter
  is a function of the action and the response; \<open>None\<close> says that the user's
  configuration does not override it, so that the getter of \<open>defaultConfig\<close> is in
  force, which reads the merged configuration through \<open>this\<close>.
\<close>

record NgEmailPassAuthProviderConfig =
  baseEndpoint :: "string option"
  login :: module_options
  register :: module_options
  logout :: module_options
  requestPass :: module_options
  resetPass :: module_options
  refreshToken :: module_options
  token_key :: string
  token_getter :: "(auth_module \<Rightarrow> pipe_val \<Rightarrow> jsval) option"
  errors_key :: string
  errors_getter :: "(auth_module \<Rightarrow> pipe_val \<Rightarrow> jsval) option"
  messages_key :: string
  messages_getter :: "(auth_module \<Rightarrow> pipe_val \<Rightarrow> jsval) option"

text \<open>\<open>this.getConfigValue(`${module}. ...`)\<close>: the block of an action.\<close>

fun module_config :: "NgEmailPassAuthProviderConfig \<Rightarrow> auth_module \<Rightarrow> module_options" where
  "module_config cfg Login = login cfg"
| "module_config cfg Register = register cfg"
| "module_config cfg Logout = logout cfg"
| "module_config cfg RequestPass = requestPass cfg"
| "module_config cfg ResetPass = resetPass cfg"
| "module_config cfg RefreshToken = refreshToken cfg"

subsection \<open>The extractor\<close>

text \<open>\<open>name.split('.')\<close>: the segments of a dotted path.\<close>

fun split_dots :: "string \<Rightarrow> string list" where
  "split_dots [] = [[]]"
| "split_dots (c # cs) =
     (if c = CHR ''.'' then [] # split_dots cs
      else (case split_dots cs of
              [] \<Rightarrow> [[c]]
            | w # ws \<Rightarrow> (c # w) # ws))"

text \<open>
  Walking a container along the segments: a segment that is missing, or a container
  that is not an object, ends the walk with \<open>undefined\<close>.
\<close>

fun walk :: "jsval \<Rightarrow> string list \<Rightarrow> jsval" where
  "walk v [] = v"
| "walk (JObj kvs) (k # ks) =
     (case map_of kvs k of None \<Rightarrow> JUndefined | Some v \<Rightarrow> walk v ks)"
| "walk v (k # ks) = JUndefined"

text \<open>
  Modelled from the spec: the helper \<open>getDeepFromObject\<close> (\<open>../helpers\<close>) is imported
  by the provider and not part of the source at hand. After the spec's contract of the
  extractors: walk the container along the path; the value found there is returned when
  it is present; when it is absent or the walk fails at a segment, the fallback is
  returned, or \<open>undefined\<close> when no fallback is given (\<open>None\<close>). It never raises.
\<close>

definition getDeepFromObject :: "jsval \<Rightarrow> string \<Rightarrow> jsval option \<Rightarrow> jsval" where
  "getDeepFromObject object name defaultValue =
     (case walk object (split_dots name) of
        JUndefined \<Rightarrow> (case defaultValue of None \<Rightarrow> JUndefined | Some d \<Rightarrow> d)
      | v \<Rightarrow> v)"

subsection \<open>The getters of \<open>defaultConfig\<close>\<close>

definition strings :: "string list \<Rightarrow> jsval" where
  "strings xs = JArr (map JStr xs)"

definition default_token_getter ::
  "NgEmailPassAuthProviderConfig \<Rightarrow> auth_module \<Rightarrow> pipe_val \<Rightarrow> jsval" where
  "default_token_getter cfg module res =
     getDeepFromObject (body_of res) (token_key cfg) None"

definition default_errors_getter ::
  "NgEmailPassAuthProviderConfig \<Rightarrow> auth_module \<Rightarrow> pipe_val \<Rightarrow> jsval" where
  "default_errors_getter cfg module res =
     getDeepFromObject (error_of res) (errors_key cfg)
       (Some (strings (defaultErrors (module_config cfg module))))"

definition default_messages_getter ::
  "NgEmailPassAuthProviderConfig \<Rightarrow> auth_module \<Rightarrow> pipe_val \<Rightarrow> jsval" where
  "default_messages_getter cfg module res =
     getDeepFromObject (body_of res) (messages_key cfg)
       (Some (strings (defaultMessages (module_config cfg module))))"

text \<open>
  \<open>this.getConfigValue('token.getter')\<close> and its two siblings: the user's getter when
  there is one, the default one otherwise.
\<close>

definition tokenGetter ::
  "NgEmailPassAuthProviderConfig \<Rightarrow> auth_module \<Rightarrow> pipe_val \<Rightarrow> jsval" where
  "tokenGetter cfg =
     (case token_getter cfg of None \<Rightarrow> default_token_getter cfg | Some g \<Rightarrow> g)"

definition errorsGetter ::
  "NgEmailPassAuthProviderConfig \<Rightarrow> auth_module \<Rightarrow> pipe_val \<Rightarrow> jsval" where
  "errorsGetter cfg =
     (case errors_getter cfg of None \<Rightarrow> default_errors_getter cfg | Some g \<Rightarrow> g)"

definition messagesGetter ::
  "NgEmailPassAuthProviderConfig \<Rightarrow> auth_module \<Rightarrow> pipe_val \<Rightarrow> jsval" where
  "messagesGetter cfg =
     (case messages_getter cfg of None \<Rightarrow> default_messages_getter cfg | Some g \<Rightarrow> g)"

subsection \<open>\<open>defaultConfig\<close>\<close>

definition defaultConfig :: NgEmailPassAuthProviderConfig where
  "defaultConfig =
     \<lparr> baseEndpoint = Some ''/api/auth/'',
       login = \<lparr> alwaysFail = Some False, rememberMe = Some True,
         endpoint = Some ''login'', http_method = ''post'',
         redirect_success = Some ''/'', redirect_failure = None,
         resetPasswordTokenKey = None,
         defaultErrors = [''Login/Email combination is not correct, please try again.''],
         defaultMessages = [''You have been successfully logged in.''] \<rparr>,
       register = \<lparr> alwaysFail = Some False, rememberMe = Some True,
         endpoint = Some ''register'', http_method = ''post'',
         redirect_success = Some ''/'', redirect_failure = None,
         resetPasswordTokenKey = None,
         defaultErrors = [''Something went wrong, please try again.''],
         defaultMessages = [''You have been successfully registered.''] \<rparr>,
       logout = \<lparr> alwaysFail = Some False, rememberMe = None,
         endpoint = Some ''logout'', http_method = ''delete'',
         redirect_success = Some ''/'', redirect_failure = None,
         resetPasswordTokenKey = None,
         defaultErrors = [''Something went wrong, please try again.''],
         defaultMessages = [''You have been successfully logged out.''] \<rparr>,
       requestPass = \<lparr> alwaysFail = None, rememberMe = None,
         endpoint = Some ''request-pass'', http_method = ''post'',
         redirect_success = Some ''/'', redirect_failure = None,
         resetPasswordTokenKey = None,
         defaultErrors = [''Something went wrong, please try again.''],
         defaultMessages = [''Reset password instructions have been sent to your email.''] \<rparr>,
       resetPass = \<lparr> alwaysFail = None, rememberMe = None,
         endpoint = Some ''reset-pass'', http_method = ''put'',
         redirect_success = Some ''/'', redirect_failure = None,
         resetPasswordTokenKey = Some ''reset_password_token'',
         defaultErrors = [''Something went wrong, please try again.''],
         defaultMessages = [''Your password has been successfully changed.''] \<rparr>,
       refreshToken = \<lparr> alwaysFail = None, rememberMe = None,
         endpoint = Some ''refresh-token'', http_method = ''post'',
         redirect_success = None, redirect_failure = None,
         resetPasswordTokenKey = None,
         defaultErrors = [''Something went wrong, please try again.''],
         defaultMessages = [''Your token has been successfully refreshed.''] \<rparr>,
       token_key = ''data.token'', token_getter = None,
       errors_key = ''data.errors'', errors_getter = None,
       messages_key = ''data.messages'', messages_getter = None \<rparr>"


section \<open>Effects and observables\<close>

text \<open>
  What an action does besides returning: the requests handed to the transport, the
  texts given to \<open>console.warn\<close>, and the invocations of the configured getters
  (functions of the user's, whose calls the user can see), each in order.
\<close>

record request =
  req_method :: string
  req_url :: jsval
  req_body :: jsval

datatype getter_kind = TokenGetter | ErrorsGetter | MessagesGetter

record effects =
  requests :: "request list"
  warnings :: "string list"
  getter_calls :: "(getter_kind \<times> auth_module \<times> pipe_val) list"

text \<open>
  A piece of JavaScript that runs to a value or throws (\<open>Inl\<close> the value thrown),
  adding to the effects so far.
\<close>

type_synonym 'a js = "effects \<Rightarrow> (pipe_val + 'a) \<times> effects"

definition js_return :: "'a \<Rightarrow> 'a js" where
  "js_return v = (\<lambda>s. (Inr v, s))"

definition js_throw :: "pipe_val \<Rightarrow> 'a js" where
  "js_throw e = (\<lambda>s. (Inl e, s))"

definition js_bind :: "'a js \<Rightarrow> ('a \<Rightarrow> 'b js) \<Rightarrow> 'b js" where
  "js_bind m f = (\<lambda>s. case m s of (Inl e, s') \<Rightarrow> (Inl e, s') | (Inr v, s') \<Rightarrow> f v s')"

definition console_warn :: "string \<Rightarrow> unit js" where
  "console_warn msg = (\<lambda>s. (Inr (), s\<lparr>warnings := warnings s @ [msg]\<rparr>))"

definition invoke ::
  "getter_kind \<Rightarrow> (auth_module \<Rightarrow> pipe_val \<Rightarrow> jsval) \<Rightarrow> auth_module \<Rightarrow> pipe_val \<Rightarrow> jsval js" where
  "invoke kind g module res =
     (\<lambda>s. (Inr (g module res), s\<lparr>getter_calls := getter_calls s @ [(kind, module, res)]\<rparr>))"

text \<open>
  The observables of the provider are single-shot and cold: subscribed to, one runs
  and ends with one value (\<open>Inr\<close>) or with an error notification (\<open>Inl\<close>). The
  operators are those the source imports from rxjs: \<open>map\<close> applies a callback to the
  value and turns what the callback throws into an error notification; \<open>switchMap\<close>
  continues with the observable the callback returns; \<open>catchError\<close> continues, after an
  error notification, with the observable its handler returns; all three pass on what
  they do not handle.
\<close>

type_synonym 'a observable = "'a js"

definition observableOf :: "'a \<Rightarrow> 'a observable" where
  "observableOf v = js_return v"

definition rx_map :: "('a \<Rightarrow> 'b js) \<Rightarrow> 'a observable \<Rightarrow> 'b observable" where
  "rx_map f src = js_bind src f"

definition switchMap :: "('a \<Rightarrow> 'b observable) \<Rightarrow> 'a observable \<Rightarrow> 'b observable" where
  "switchMap f src = js_bind src f"

definition catchError :: "(pipe_val \<Rightarrow> 'a observable) \<Rightarrow> 'a observable \<Rightarrow> 'a observable" where
  "catchError h src =
     (\<lambda>s. case src s of (Inl e, s') \<Rightarrow> h e s' | (Inr v, s') \<Rightarrow> (Inr v, s'))"

text \<open>\<open>source.pipe(o1, o2, ...)\<close>: the operators applied in the order written.\<close>

definition pipe3 :: "'a \<Rightarrow> ('a \<Rightarrow> 'b) \<Rightarrow> ('b \<Rightarrow> 'c) \<Rightarrow> ('c \<Rightarrow> 'd) \<Rightarrow> 'd" where
  "pipe3 src o1 o2 o3 = o3 (o2 (o1 src))"

definition pipe4 :: "'a \<Rightarrow> ('a \<Rightarrow> 'b) \<Rightarrow> ('b \<Rightarrow> 'c) \<Rightarrow> ('c \<Rightarrow> 'd) \<Rightarrow> ('d \<Rightarrow> 'e) \<Rightarrow> 'e" where
  "pipe4 src o1 o2 o3 o4 = o4 (o3 (o2 (o1 src)))"

text \<open>Subscribing runs the observable from no effects at all.\<close>

definition subscribe :: "'a observable \<Rightarrow> (pipe_val + 'a) \<times> effects" where
  "subscribe obs = obs \<lparr> requests = [], warnings = [], getter_calls = [] \<rparr>"

section \<open>The collaborators\<close>

text \<open>
  What the provider is given and the source at hand does not define: the transport
  behind \<open>this.http.request\<close>, which answers a request with a response (\<open>Inr\<close>) or
  fails (\<open>Inl\<close>: an \<open>HttpErrorResponse\<close> or anything else); the query parameters of the
  route snapshot; the inherited method \<open>createFailResponse\<close> of
  \<open>NbAbstractAuthProvider\<close>, a function of its optional argument (\<open>JUndefined\<close> when
  the call passes none); and the text JavaScript puts into a template literal for a
  getter function.
\<close>

record environment =
  http :: "request \<Rightarrow> pipe_val + pipe_val"
  queryParams :: "(string \<times> jsval) list"
  createFailResponse :: "jsval \<Rightarrow> pipe_val"
  function_text :: "(auth_module \<Rightarrow> pipe_val \<Rightarrow> jsval) \<Rightarrow> string"

text \<open>
  \<open>this.http.request(method, url, {body: data, observe: 'response'})\<close>: the request
  goes out when the observable is subscribed to.
\<close>

definition http_request :: "environment \<Rightarrow> string \<Rightarrow> jsval \<Rightarrow> jsval \<Rightarrow> pipe_val observable" where
  "http_request env method url data =
     (\<lambda>s. let req = \<lparr> req_method = method, req_url = url, req_body = data \<rparr>
          in (http env req, s\<lparr>requests := requests s @ [req]\<rparr>))"

section \<open>The provider\<close>

text \<open>
  The methods of \<open>NbEmailPassAuthProvider\<close>. The methods \<open>register\<close>, \<open>logout\<close>
  and \<open>refreshToken\<close> are \<open>register_user\<close>, \<open>logout_user\<close> and \<open>refresh_token\<close>
  here, their names being taken by the configuration keys.
\<close>

definition getActionEndpoint :: "NgEmailPassAuthProviderConfig \<Rightarrow> auth_module \<Rightarrow> jsval" where
  "getActionEndpoint cfg action =
     (let actionEndpoint = endpoint (module_config cfg action);
          baseEndpoint = baseEndpoint cfg
      in js_plus baseEndpoint actionEndpoint)"

text \<open>The text of the warning of \<open>validateToken\<close>, a template literal over three lines.\<close>

definition token_warning :: "string \<Rightarrow> string \<Rightarrow> string" where
  "token_warning key getter =
     ''NbEmailPassAuthProvider:'' @ [CHR 0x0A] @
     replicate 26 CHR '' '' @ ''Token is not provided under '' @ [CHR 0x27] @ key @ [CHR 0x27] @
       '' key'' @ [CHR 0x0A] @
     replicate 26 CHR '' '' @ ''with getter '' @ [CHR 0x27] @ getter @ [CHR 0x27] @
       '', check your auth configuration.''"

definition validateToken ::
  "environment \<Rightarrow> NgEmailPassAuthProviderConfig \<Rightarrow> auth_module \<Rightarrow>
     pipe_val observable \<Rightarrow> pipe_val observable" where
  "validateToken env cfg module =
     rx_map (\<lambda>res.
       js_bind (invoke TokenGetter (tokenGetter cfg) module res) (\<lambda>token.
         if \<not> truthy token
         then (let key = token_key cfg
               in js_bind
                    (console_warn (token_warning key (function_text env (tokenGetter cfg))))
                    (\<lambda>u. js_throw (Error ''Could not extract token from the response.'')))
         else js_return res))"

definition authenticate ::
  "environment \<Rightarrow> NgEmailPassAuthProviderConfig \<Rightarrow> jsval \<Rightarrow> NbAuthResult observable" where
  "authenticate env cfg data =
     (let method = http_method (login cfg);
          url = getActionEndpoint cfg Login
      in pipe4 (http_request env method url data)
        (rx_map (\<lambda>res.
          if truthy_flag (alwaysFail (login cfg))
          then js_throw (createFailResponse env data)
          else js_return res))
        (validateToken env cfg Login)
        (rx_map (\<lambda>res.
          js_bind (invoke MessagesGetter (messagesGetter cfg) Login res) (\<lambda>msgs.
          js_bind (invoke TokenGetter (tokenGetter cfg) Login res) (\<lambda>tok.
            js_return
              \<lparr> success = True, response = res,
                redirect = redirect_success (login cfg),
                errors = JArr [], messages = Some msgs, token = Some tok \<rparr>))))
        (catchError (\<lambda>res.
          js_bind
            (if isHttpErrorResponse res
             then invoke ErrorsGetter (errorsGetter cfg) Login res
             else js_return (JArr [JStr ''Something went wrong.'']))
            (\<lambda>errors.
               observableOf
                 \<lparr> success = False, response = res,
                   redirect = redirect_failure (login cfg),
                   errors = errors, messages = None, token = None \<rparr>))))"

definition register_user ::
  "environment \<Rightarrow> NgEmailPassAuthProviderConfig \<Rightarrow> jsval \<Rightarrow> NbAuthResult observable" where
  "register_user env cfg data =
     (let method = http_method (register cfg);
          url = getActionEndpoint cfg Register
      in pipe4 (http_request env method url data)
        (rx_map (\<lambda>res.
          if truthy_flag (alwaysFail (register cfg))
          then js_throw (createFailResponse env data)
          else js_return res))
        (validateToken env cfg Register)
        (rx_map (\<lambda>res.
          js_bind (invoke MessagesGetter (messagesGetter cfg) Register res) (\<lambda>msgs.
          js_bind (invoke TokenGetter (tokenGetter cfg) Register res) (\<lambda>tok.
            js_return
              \<lparr> success = True, response = res,
                redirect = redirect_success (register cfg),
                errors = JArr [], messages = Some msgs, token = Some tok \<rparr>))))
        (catchError (\<lambda>res.
          js_bind
            (if isHttpErrorResponse res
             then invoke ErrorsGetter (errorsGetter cfg) Register res
             else js_return (JArr [JStr ''Something went wrong.'']))
            (\<lambda>errors.
               observableOf
                 \<lparr> success = False, response = res,
                   redirect = redirect_failure (register cfg),
                   errors = errors, messages = None, token = None \<rparr>))))"

definition requestPassword ::
  "environment \<Rightarrow> NgEmailPassAuthProviderConfig \<Rightarrow> jsval \<Rightarrow> NbAuthResult observable" where
  "requestPassword env cfg data =
     (let method = http_method (requestPass cfg);
          url = getActionEndpoint cfg RequestPass
      in pipe3 (http_request env method url data)
        (rx_map (\<lambda>res.
          if truthy_flag (alwaysFail (requestPass cfg))
          then js_throw (createFailResponse env JUndefined)
          else js_return res))
        (rx_map (\<lambda>res.
          js_bind (invoke MessagesGetter (messagesGetter cfg) RequestPass res) (\<lambda>msgs.
            js_return
              \<lparr> success = True, response = res,
                redirect = redirect_success (requestPass cfg),
                errors = JArr [], messages = Some msgs, token = None \<rparr>)))
        (catchError (\<lambda>res.
          js_bind
            (if isHttpErrorResponse res
             then invoke ErrorsGetter (errorsGetter cfg) RequestPass res
             else js_return (JArr [JStr ''Something went wrong.'']))
            (\<lambda>errors.
               observableOf
                 \<lparr> success = False, response = res,
                   redirect = redirect_failure (requestPass cfg),
                   errors = errors, messages = None, token = None \<rparr>))))"

text \<open>
  \<open>resetPassword(data: any = {})\<close>: the caller's data is an object or is left out
  (\<open>None\<close>), and then is \<open>{}\<close>. A missing \<open>resetPasswordTokenKey\<close> is
  \<open>undefined\<close>, and as a property name the text \<open>undefined\<close>.
\<close>

definition resetPassword ::
  "environment \<Rightarrow> NgEmailPassAuthProviderConfig \<Rightarrow> (string \<times> jsval) list option \<Rightarrow>
     NbAuthResult observable" where
  "resetPassword env cfg data_arg =
     (let data = (case data_arg of None \<Rightarrow> [] | Some kvs \<Rightarrow> kvs);
          tokenKey = (case resetPasswordTokenKey (resetPass cfg) of
                        None \<Rightarrow> ''undefined'' | Some k \<Rightarrow> k);
          data = set_prop data tokenKey (get_prop (queryParams env) tokenKey);
          method = http_method (resetPass cfg);
          url = getActionEndpoint cfg ResetPass
      in pipe3 (http_request env method url (JObj data))
        (rx_map (\<lambda>res.
          if truthy_flag (alwaysFail (resetPass cfg))
          then js_throw (createFailResponse env JUndefined)
          else js_return res))
        (rx_map (\<lambda>res.
          js_bind (invoke MessagesGetter (messagesGetter cfg) ResetPass res) (\<lambda>msgs.
            js_return
              \<lparr> success = True, response = res,
                redirect = redirect_success (resetPass cfg),
                errors = JArr [], messages = Some msgs, token = None \<rparr>)))
        (catchError (\<lambda>res.
          js_bind
            (if isHttpErrorResponse res
             then invoke ErrorsGetter (errorsGetter cfg) ResetPass res
             else js_return (JArr [JStr ''Something went wrong.'']))
            (\<lambda>errors.
               observableOf
                 \<lparr> success = False, response = res,
                   redirect = redirect_failure (resetPass cfg),
                   errors = errors, messages = None, token = None \<rparr>))))"

definition logout_user ::
  "environment \<Rightarrow> NgEmailPassAuthProviderConfig \<Rightarrow> NbAuthResult observable" where
  "logout_user env cfg =
     (let method = http_method (logout cfg);
          url = getActionEndpoint cfg Logout
      in pipe4 (observableOf EmptyObject)
        (switchMap (\<lambda>res.
          if \<not> truthy url
          then observableOf res
          else http_request env method url JUndefined))
        (rx_map (\<lambda>res.
          if truthy_flag (alwaysFail (logout cfg))
          then js_throw (createFailResponse env JUndefined)
          else js_return res))
        (rx_map (\<lambda>res.
          js_bind (invoke MessagesGetter (messagesGetter cfg) Logout res) (\<lambda>msgs.
            js_return
              \<lparr> success = True, response = res,
                redirect = redirect_success (logout cfg),
                errors = JArr [], messages = Some msgs, token = None \<rparr>)))
        (catchError (\<lambda>res.
          js_bind
            (if isHttpErrorResponse res
             then invoke ErrorsGetter (errorsGetter cfg) Logout res
             else js_return (JArr [JStr ''Something went wrong.'']))
            (\<lambda>errors.
               observableOf
                 \<lparr> success = False, response = res,
                   redirect = redirect_failure (logout cfg),
                   errors = errors, messages = None, token = None \<rparr>))))"

definition refresh_token ::
  "environment \<Rightarrow> NgEmailPassAuthProviderConfig \<Rightarrow> jsval \<Rightarrow> NbAuthResult observable" where
  "refresh_token env cfg data =
     (let method = http_method (refreshToken cfg);
          url = getActionEndpoint cfg RefreshToken
      in pipe4 (http_request env method url data)
        (rx_map (\<lambda>res.
          if truthy_flag (alwaysFail (refreshToken cfg))
          then js_throw (createFailResponse env data)
          else js_return res))
        (validateToken env cfg RefreshToken)
        (rx_map (\<lambda>res.
          js_bind (invoke MessagesGetter (messagesGetter cfg) RefreshToken res) (\<lambda>msgs.
          js_bind (invoke TokenGetter (tokenGetter cfg) RefreshToken res) (\<lambda>tok.
            js_return
              \<lparr> success = True, response = res,
                redirect = redirect_success (refreshToken cfg),
                errors = JArr [], messages = Some msgs, token = Some tok \<rparr>))))
        (catchError (\<lambda>res.
          js_bind
            (if isHttpErrorResponse res
             then invoke ErrorsGetter (errorsGetter cfg) RefreshToken res
             else js_return (JArr [JStr ''Something went wrong.'']))
            (\<lambda>errors.
               observableOf
                 \<lparr> success = False, response = res,
                   redirect = redirect_failure (refreshToken cfg),
                   errors = errors, messages = None, token = None \<rparr>))))"


section \<open>The provider with getters that throw\<close>

text \<open>
  A configured getter is a JavaScript function of the user's: called, it returns a value
  or throws. The configuration above holds what it returns. Where it throws is given
  beside it: for the kind of getter, the action and the response it is called on,
  \<open>Some e\<close> when the call throws \<open>e\<close>, \<open>None\<close> when it returns. The call is made, and
  recorded, either way.
\<close>

type_synonym getter_throws = "getter_kind \<Rightarrow> auth_module \<Rightarrow> pipe_val \<Rightarrow> pipe_val option"

definition never_throws :: getter_throws where
  "never_throws = (\<lambda>kind module res. None)"

definition invoke_throwing ::
  "getter_throws \<Rightarrow> getter_kind \<Rightarrow> (auth_module \<Rightarrow> pipe_val \<Rightarrow> jsval) \<Rightarrow>
     auth_module \<Rightarrow> pipe_val \<Rightarrow> jsval js" where
  "invoke_throwing thr kind g module res =
     (\<lambda>s. ((case thr kind module res of None \<Rightarrow> Inr (g module res) | Some e \<Rightarrow> Inl e),
           s\<lparr>getter_calls := getter_calls s @ [(kind, module, res)]\<rparr>))"

text \<open>
  The methods of the provider once more, line for line as above, with every call of a
  configured getter one that may throw. A throw in a \<open>map\<close> callback becomes an error
  notification, which \<open>catchError\<close> handles; a throw in the handler of \<open>catchError\<close>
  has nothing after it, and is the error notification of the method's observable.
\<close>

definition validateToken_throwing ::
  "getter_throws \<Rightarrow> environment \<Rightarrow> NgEmailPassAuthProviderConfig \<Rightarrow> auth_module \<Rightarrow>
     pipe_val observable \<Rightarrow> pipe_val observable" where
  "validateToken_throwing thr env cfg module =
     rx_map (\<lambda>res.
       js_bind (invoke_throwing thr TokenGetter (tokenGetter cfg) module res) (\<lambda>token.
         if \<not> truthy token
         then (let key = token_key cfg
               in js_bind
                    (console_warn (token_warning key (function_text env (tokenGetter cfg))))
                    (\<lambda>u. js_throw (Error ''Could not extract token from the response.'')))
         else js_return res))"

definition authenticate_throwing ::
  "getter_throws \<Rightarrow> environment \<Rightarrow> NgEmailPassAuthProviderConfig \<Rightarrow> jsval \<Rightarrow>
     NbAuthResult observable" where
  "authenticate_throwing thr env cfg data =
     (let method = http_method (login cfg);
          url = getActionEndpoint cfg Login
      in pipe4 (http_request env method url data)
        (rx_map (\<lambda>res.
          if truthy_flag (alwaysFail (login cfg))
          then js_throw (createFailResponse env data)
          else js_return res))
        (validateToken_throwing thr env cfg Login)
        (rx_map (\<lambda>res.
          js_bind (invoke_throwing thr MessagesGetter (messagesGetter cfg) Login res) (\<lambda>msgs.
          js_bind (invoke_throwing thr TokenGetter (tokenGetter cfg) Login res) (\<lambda>tok.
            js_return
              \<lparr> success = True, response = res,
                redirect = redirect_success (login cfg),
                errors = JArr [], messages = Some msgs, token = Some tok \<rparr>))))
        (catchError (\<lambda>res.
          js_bind
            (if isHttpErrorResponse res
             then invoke_throwing thr ErrorsGetter (errorsGetter cfg) Login res
             else js_return (JArr [JStr ''Something went wrong.'']))
            (\<lambda>errors.
               observableOf
                 \<lparr> success = False, response = res,
                   redirect = redirect_failure (login cfg),
                   errors = errors, messages = None, token = None \<rparr>))))"

definition register_throwing ::
  "getter_throws \<Rightarrow> environment \<Rightarrow> NgEmailPassAuthProviderConfig \<Rightarrow> jsval \<Rightarrow>
     NbAuthResult observable" where
  "register_throwing thr env cfg data =
     (let method = http_method (register cfg);
          url = getActionEndpoint cfg Register
      in pipe4 (http_request env method url data)
        (rx_map (\<lambda>res.
          if truthy_flag (alwaysFail (register cfg))
          then js_throw (createFailResponse env data)
          else js_return res))
        (validateToken_throwing thr env cfg Register)
        (rx_map (\<lambda>res.
          js_bind (invoke_throwing thr MessagesGetter (messagesGetter cfg) Register res) (\<lambda>msgs.
          js_bind (invoke_throwing thr TokenGetter (tokenGetter cfg) Register res) (\<lambda>tok.
            js_return
              \<lparr> success = True, response = res,
                redirect = redirect_success (register cfg),
                errors = JArr [], messages = Some msgs, token = Some tok \<rparr>))))
        (catchError (\<lambda>res.
          js_bind
            (if isHttpErrorResponse res
             then invoke_throwing thr ErrorsGetter (errorsGetter cfg) Register res
             else js_return (JArr [JStr ''Something went wrong.'']))
            (\<lambda>errors.
               observableOf
                 \<lparr> success = False, response = res,
                   redirect = redirect_failure (register cfg),
                   errors = errors, messages = None, token = None \<rparr>))))"

definition requestPassword_throwing ::
  "getter_throws \<Rightarrow> environment \<Rightarrow> NgEmailPassAuthProviderConfig \<Rightarrow> jsval \<Rightarrow>
     NbAuthResult observable" where
  "requestPassword_throwing thr env cfg data =
     (let method = http_method (requestPass cfg);
          url = getActionEndpoint cfg RequestPass
      in pipe3 (http_request env method url data)
        (rx_map (\<lambda>res.
          if truthy_flag (alwaysFail (requestPass cfg))
          then js_throw (createFailResponse env JUndefined)
          else js_return res))
        (rx_map (\<lambda>res.
          js_bind (invoke_throwing thr MessagesGetter (messagesGetter cfg) RequestPass res) (\<lambda>msgs.
            js_return
              \<lparr> success = True, response = res,
                redirect = redirect_success (requestPass cfg),
                errors = JArr [], messages = Some msgs, token = None \<rparr>)))
        (catchError (\<lambda>res.
          js_bind
            (if isHttpErrorResponse res
             then invoke_throwing thr ErrorsGetter (errorsGetter cfg) RequestPass res
             else js_return (JArr [JStr ''Something went wrong.'']))
            (\<lambda>errors.
               observableOf
                 \<lparr> success = False, response = res,
                   redirect = redirect_failure (requestPass cfg),
                   errors = errors, messages = None, token = None \<rparr>))))"

definition resetPassword_throwing ::
  "getter_throws \<Rightarrow> environment \<Rightarrow> NgEmailPassAuthProviderConfig \<Rightarrow>
     (string \<times> jsval) list option \<Rightarrow> NbAuthResult observable" where
  "resetPassword_throwing thr env cfg data_arg =
     (let data = (case data_arg of None \<Rightarrow> [] | Some kvs \<Rightarrow> kvs);
          tokenKey = (case resetPasswordTokenKey (resetPass cfg) of
                        None \<Rightarrow> ''undefined'' | Some k \<Rightarrow> k);
          data = set_prop data tokenKey (get_prop (queryParams env) tokenKey);
          method = http_method (resetPass cfg);
          url = getActionEndpoint cfg ResetPass
      in pipe3 (http_request env method url (JObj data))
        (rx_map (\<lambda>res.
          if truthy_flag (alwaysFail (resetPass cfg))
          then js_throw (createFailResponse env JUndefined)
          else js_return res))
        (rx_map (\<lambda>res.
          js_bind (invoke_throwing thr MessagesGetter (messagesGetter cfg) ResetPass res) (\<lambda>msgs.
            js_return
              \<lparr> success = True, response = res,
                redirect = redirect_success (resetPass cfg),
                errors = JArr [], messages = Some msgs, token = None \<rparr>)))
        (catchError (\<lambda>res.
          js_bind
            (if isHttpErrorResponse res
             then invoke_throwing thr ErrorsGetter (errorsGetter cfg) ResetPass res
             else js_return (JArr [JStr ''Something went wrong.'']))
            (\<lambda>errors.
               observableOf
                 \<lparr> success = False, response = res,
                   redirect = redirect_failure (resetPass cfg),
                   errors = errors, messages = None, token = None \<rparr>))))"

definition logout_throwing ::
  "getter_throws \<Rightarrow> environment \<Rightarrow> NgEmailPassAuthProviderConfig \<Rightarrow> NbAuthResult observable" where
  "logout_throwing thr env cfg =
     (let method = http_method (logout cfg);
          url = getActionEndpoint cfg Logout
      in pipe4 (observableOf EmptyObject)
        (switchMap (\<lambda>res.
          if \<not> truthy url
          then observableOf res
          else http_request env method url JUndefined))
        (rx_map (\<lambda>res.
          if truthy_flag (alwaysFail (logout cfg))
          then js_throw (createFailResponse env JUndefined)
          else js_return res))
        (rx_map (\<lambda>res.
          js_bind (invoke_throwing thr MessagesGetter (messagesGetter cfg) Logout res) (\<lambda>msgs.
            js_return
              \<lparr> success = True, response = res,
                redirect = redirect_success (logout cfg),
                errors = JArr [], messages = Some msgs, token = None \<rparr>)))
        (catchError (\<lambda>res.
          js_bind
            (if isHttpErrorResponse res
             then invoke_throwing thr ErrorsGetter (errorsGetter cfg) Logout res
             else js_return (JArr [JStr ''Something went wrong.'']))
            (\<lambda>errors.
               observableOf
                 \<lparr> success = False, response = res,
                   redirect = redirect_failure (logout cfg),
                   errors = errors, messages = None, token = None \<rparr>))))"

definition refreshToken_throwing ::
  "getter_throws \<Rightarrow> environment \<Rightarrow> NgEmailPassAuthProviderConfig \<Rightarrow> jsval \<Rightarrow>
     NbAuthResult observable" where
  "refreshToken_throwing thr env cfg data =
     (let method = http_method (refreshToken cfg);
          url = getActionEndpoint cfg RefreshToken
      in pipe4 (http_request env method url data)
        (rx_map (\<lambda>res.
          if truthy_flag (alwaysFail (refreshToken cfg))
          then js_throw (createFailResponse env data)
          else js_return res))
        (validateToken_throwing thr env cfg RefreshToken)
        (rx_map (\<lambda>res.
          js_bind (invoke_throwing thr MessagesGetter (messagesGetter cfg) RefreshToken res) (\<lambda>msgs.
          js_bind (invoke_throwing thr TokenGetter (tokenGetter cfg) RefreshToken res) (\<lambda>tok.
            js_return
              \<lparr> success = True, response = res,
                redirect = redirect_success (refreshToken cfg),
                errors = JArr [], messages = Some msgs, token = Some tok \<rparr>))))
        (catchError (\<lambda>res.
          js_bind
            (if isHttpErrorResponse res
             then invoke_throwing thr ErrorsGetter (errorsGetter cfg) RefreshToken res
             else js_return (JArr [JStr ''Something went wrong.'']))
            (\<lambda>errors.
               observableOf
                 \<lparr> success = False, response = res,
                   redirect = redirect_failure (refreshToken cfg),
                   errors = errors, messages = None, token = None \<rparr>))))"

section \<open>What the subscriber sees\<close>

text \<open>
  The value an observable hands to its subscriber: \<open>None\<close> when it ends with an error
  notification instead, which is an exception that got past the pipeline.
\<close>

definition emitted :: "(pipe_val + 'a) \<times> effects \<Rightarrow> 'a option" where
  "emitted out = (case fst out of Inl e \<Rightarrow> None | Inr v \<Rightarrow> Some v)"

text \<open>The one request an action sends for its data.\<close>

definition request_for ::
  "NgEmailPassAuthProviderConfig \<Rightarrow> auth_module \<Rightarrow> jsval \<Rightarrow> request" where
  "request_for cfg module data =
     \<lparr> req_method = http_method (module_config cfg module),
       req_url = getActionEndpoint cfg module,
       req_body = data \<rparr>"

text \<open>The body \<open>resetPassword\<close> sends: the caller's data with the token field set.\<close>

definition reset_body :: "environment \<Rightarrow> NgEmailPassAuthProviderConfig \<Rightarrow> (string \<times> jsval) list option \<Rightarrow> (string \<times> jsval) list" where
  "reset_body env cfg data_arg =
     (let key = (case resetPasswordTokenKey (resetPass cfg) of None \<Rightarrow> ''undefined'' | Some k \<Rightarrow> k)
      in set_prop (case data_arg of None \<Rightarrow> [] | Some kvs \<Rightarrow> kvs) key
           (get_prop (queryParams env) key))"

section \<open>The pipeline as the specification words it\<close>

text \<open>
  The specification describes one procedure for all actions. Its two branches, written
  once, for comparison with the six methods: the failure branch builds a result from
  the failure caught, the success branch one from the response, with a token where the
  action carries one.
\<close>

definition failure_result ::
  "NgEmailPassAuthProviderConfig \<Rightarrow> auth_module \<Rightarrow> pipe_val \<Rightarrow> NbAuthResult" where
  "failure_result cfg module e =
     \<lparr> success = False, response = e,
       redirect = redirect_failure (module_config cfg module),
       errors = (if isHttpErrorResponse e then errorsGetter cfg module e
                 else JArr [JStr ''Something went wrong.'']),
       messages = None, token = None \<rparr>"

definition success_result ::
  "NgEmailPassAuthProviderConfig \<Rightarrow> auth_module \<Rightarrow> bool \<Rightarrow> pipe_val \<Rightarrow> NbAuthResult" where
  "success_result cfg module with_token res =
     \<lparr> success = True, response = res,
       redirect = redirect_success (module_config cfg module),
       errors = JArr [],
       messages = Some (messagesGetter cfg module res),
       token = (if with_token then Some (tokenGetter cfg module res) else None) \<rparr>"

text \<open>
  The result of an action, from what the transport answered: steps 4 to 7 of the
  specification's procedure. \<open>with_token\<close> says whether the action carries a token,
  \<open>fail_arg\<close> is what the action passes to \<open>createFailResponse\<close>.
\<close>

definition action_outcome ::
  "environment \<Rightarrow> NgEmailPassAuthProviderConfig \<Rightarrow> auth_module \<Rightarrow> bool \<Rightarrow> jsval \<Rightarrow>
     pipe_val + pipe_val \<Rightarrow> NbAuthResult" where
  "action_outcome env cfg module with_token fail_arg answer =
     (case answer of
        Inl e \<Rightarrow> failure_result cfg module e
      | Inr res \<Rightarrow>
          if truthy_flag (alwaysFail (module_config cfg module))
          then failure_result cfg module (createFailResponse env fail_arg)
          else if with_token \<and> \<not> truthy (tokenGetter cfg module res)
          then failure_result cfg module (Error ''Could not extract token from the response.'')
          else success_result cfg module with_token res)"

text \<open>The getter invocations of the failure branch.\<close>

definition failure_calls :: "auth_module \<Rightarrow> pipe_val \<Rightarrow> (getter_kind \<times> auth_module \<times> pipe_val) list" where
  "failure_calls module e = (if isHttpErrorResponse e then [(ErrorsGetter, module, e)] else [])"

text \<open>
  The getter invocations and the warnings of an action that carries a token, from what
  the transport answered.
\<close>

definition token_action_calls ::
  "environment \<Rightarrow> NgEmailPassAuthProviderConfig \<Rightarrow> auth_module \<Rightarrow> jsval \<Rightarrow>
     pipe_val + pipe_val \<Rightarrow> (getter_kind \<times> auth_module \<times> pipe_val) list" where
  "token_action_calls env cfg module fail_arg answer =
     (case answer of
        Inl e \<Rightarrow> failure_calls module e
      | Inr res \<Rightarrow>
          if truthy_flag (alwaysFail (module_config cfg module))
          then failure_calls module (createFailResponse env fail_arg)
          else if \<not> truthy (tokenGetter cfg module res)
          then [(TokenGetter, module, res)]
          else [(TokenGetter, module, res), (MessagesGetter, module, res),
                (TokenGetter, module, res)])"

definition token_action_warnings ::
  "environment \<Rightarrow> NgEmailPassAuthProviderConfig \<Rightarrow> auth_module \<Rightarrow>
     pipe_val + pipe_val \<Rightarrow> string list" where
  "token_action_warnings env cfg module answer =
     (case answer of
        Inl e \<Rightarrow> []
      | Inr res \<Rightarrow>
          if \<not> truthy_flag (alwaysFail (module_config cfg module))
             \<and> \<not> truthy (tokenGetter cfg module res)
          then [token_warning (token_key cfg) (function_text env (tokenGetter cfg))]
          else [])"

section \<open>Concrete collaborators and configurations\<close>

text \<open>A transport that answers every request with the same response or failure.\<close>

definition env_answering :: "pipe_val + pipe_val \<Rightarrow> environment" where
  "env_answering answer =
     \<lparr> http = (\<lambda>req. answer),
       queryParams = [(''reset_password_token'', JStr ''XYZ'')],
       createFailResponse = (\<lambda>data. HttpResponse 401 (JObj [(''sent'', data)])),
       function_text = (\<lambda>g. ''getter'') \<rparr>"

definition response_with_token :: pipe_val where
  "response_with_token =
     HttpResponse 200 (JObj [(''data'', JObj [(''token'', JStr ''abc'')])])"

definition response_without_token :: pipe_val where
  "response_without_token = HttpResponse 200 (JObj [])"

definition unknown_email :: pipe_val where
  "unknown_email =
     HttpErrorResponse 400 (JObj [(''data'', JObj [(''errors'', JArr [JStr ''Unknown email''])])])"

text \<open>The default configuration with \<open>alwaysFail: true\<close> in every action.\<close>

definition config_always_fail :: NgEmailPassAuthProviderConfig where
  "config_always_fail =
     defaultConfig
       \<lparr> login := (login defaultConfig) \<lparr> alwaysFail := Some True \<rparr>,
         register := (register defaultConfig) \<lparr> alwaysFail := Some True \<rparr>,
         logout := (logout defaultConfig) \<lparr> alwaysFail := Some True \<rparr>,
         requestPass := (requestPass defaultConfig) \<lparr> alwaysFail := Some True \<rparr>,
         resetPass := (resetPass defaultConfig) \<lparr> alwaysFail := Some True \<rparr>,
         refreshToken := (refreshToken defaultConfig) \<lparr> alwaysFail := Some True \<rparr> \<rparr>"





section \<open>Properties of the helpers\<close>

lemma map_of_set_prop:
  "map_of (set_prop kvs k v) k' = (if k' = k then Some v else map_of kvs k')"
  by (induction kvs) auto

lemma filter_set_prop:
  "filter (\<lambda>p. fst p \<noteq> k) (set_prop kvs k v) = filter (\<lambda>p. fst p \<noteq> k) kvs"
  by (induction kvs) auto

lemma falsy_url:
  "\<not> truthy (js_plus b e) \<longleftrightarrow> (b = Some [] \<and> e = Some []) \<or> (b = None \<and> e = None)"
  by (cases b; cases e) auto

lemma failure_result_fails [simp]: "success (failure_result cfg module e) = False"
  by (simp add: failure_result_def)

lemma failure_result_response [simp]: "response (failure_result cfg module e) = e"
  by (simp add: failure_result_def)

lemma success_result_succeeds [simp]: "success (success_result cfg module t res) = True"
  by (simp add: success_result_def)

lemma default_token_absent:
  "tokenGetter defaultConfig module (HttpResponse st body) =
     getDeepFromObject body ''data.token'' None"
  by (simp add: tokenGetter_def default_token_getter_def defaultConfig_def)

lemma default_messages_present:
  "messagesGetter defaultConfig module (HttpResponse st body) =
     getDeepFromObject body ''data.messages''
       (Some (strings (defaultMessages (module_config defaultConfig module))))"
  by (simp add: messagesGetter_def default_messages_getter_def defaultConfig_def)

lemma default_errors_present:
  "errorsGetter defaultConfig module (HttpErrorResponse st e) =
     getDeepFromObject e ''data.errors''
       (Some (strings (defaultErrors (module_config defaultConfig module))))"
  by (simp add: errorsGetter_def default_errors_getter_def defaultConfig_def)

lemma falsy_logout_url:
  "\<not> truthy (getActionEndpoint cfg Logout) \<longleftrightarrow>
     (baseEndpoint cfg = Some [] \<and> endpoint (logout cfg) = Some []) \<or>
     (baseEndpoint cfg = None \<and> endpoint (logout cfg) = None)"
  by (simp add: getActionEndpoint_def falsy_url)

section \<open>Properties of the specification's pipeline\<close>

lemma outcome_alwaysFail:
  "truthy_flag (alwaysFail (module_config cfg module)) \<Longrightarrow>
   success (action_outcome env cfg module t a answer) = False"
  by (simp add: action_outcome_def split: sum.splits)

lemma outcome_alwaysFail_response:
  "truthy_flag (alwaysFail (module_config cfg module)) \<Longrightarrow>
   action_outcome env cfg module t a (Inr res) = failure_result cfg module (createFailResponse env a)"
  by (simp add: action_outcome_def)

lemma outcome_transport_failure:
  "action_outcome env cfg module t a (Inl e) = failure_result cfg module e"
  by (simp add: action_outcome_def)

lemma outcome_token_missing:
  "\<not> truthy (tokenGetter cfg module res) \<Longrightarrow>
   success (action_outcome env cfg module True a (Inr res)) = False"
  by (simp add: action_outcome_def)

lemma outcome_success:
  "\<not> truthy_flag (alwaysFail (module_config cfg module)) \<Longrightarrow>
   t \<longrightarrow> truthy (tokenGetter cfg module res) \<Longrightarrow>
   action_outcome env cfg module t a (Inr res) = success_result cfg module t res"
  by (auto simp add: action_outcome_def)

lemma outcome_errors:
  "\<not> success (action_outcome env cfg module t a answer) \<Longrightarrow>
   errors (action_outcome env cfg module t a answer) =
     (if isHttpErrorResponse (response (action_outcome env cfg module t a answer))
      then errorsGetter cfg module (response (action_outcome env cfg module t a answer))
      else JArr [JStr ''Something went wrong.''])"
  by (auto simp add: action_outcome_def failure_result_def success_result_def
        split: sum.splits if_splits)

lemma emitted_subscribe:
  "fst (obs \<lparr> requests = [], warnings = [], getter_calls = [] \<rparr>) = Inr v \<Longrightarrow>
   emitted (subscribe obs) = Some v"
  by (simp add: emitted_def subscribe_def)

section \<open>The six methods against the specification's pipeline\<close>

lemmas rx_defs = pipe3_def pipe4_def rx_map_def switchMap_def catchError_def js_bind_def
  js_return_def js_throw_def observableOf_def invoke_def console_warn_def http_request_def
  validateToken_def

lemmas outcome_defs = action_outcome_def failure_result_def success_result_def
  failure_calls_def token_action_calls_def token_action_warnings_def request_for_def

lemma authenticate_run:
  "fst (authenticate env cfg data s) =
     Inr (action_outcome env cfg Login True data (http env (request_for cfg Login data)))"
  "requests (snd (authenticate env cfg data s)) = requests s @ [request_for cfg Login data]"
  "warnings (snd (authenticate env cfg data s)) =
     warnings s @ token_action_warnings env cfg Login (http env (request_for cfg Login data))"
  "getter_calls (snd (authenticate env cfg data s)) =
     getter_calls s @ token_action_calls env cfg Login data (http env (request_for cfg Login data))"
  by (simp_all add: authenticate_def rx_defs outcome_defs Let_def split: sum.splits)

lemma register_user_run:
  "fst (register_user env cfg data s) =
     Inr (action_outcome env cfg Register True data (http env (request_for cfg Register data)))"
  "requests (snd (register_user env cfg data s)) = requests s @ [request_for cfg Register data]"
  "warnings (snd (register_user env cfg data s)) =
     warnings s @ token_action_warnings env cfg Register (http env (request_for cfg Register data))"
  "getter_calls (snd (register_user env cfg data s)) =
     getter_calls s @ token_action_calls env cfg Register data (http env (request_for cfg Register data))"
  by (simp_all add: register_user_def rx_defs outcome_defs Let_def split: sum.splits)

lemma refresh_token_run:
  "fst (refresh_token env cfg data s) =
     Inr (action_outcome env cfg RefreshToken True data (http env (request_for cfg RefreshToken data)))"
  "requests (snd (refresh_token env cfg data s)) = requests s @ [request_for cfg RefreshToken data]"
  "warnings (snd (refresh_token env cfg data s)) =
     warnings s @ token_action_warnings env cfg RefreshToken (http env (request_for cfg RefreshToken data))"
  "getter_calls (snd (refresh_token env cfg data s)) =
     getter_calls s @ token_action_calls env cfg RefreshToken data (http env (request_for cfg RefreshToken data))"
  by (simp_all add: refresh_token_def rx_defs outcome_defs Let_def split: sum.splits)

lemma requestPassword_run:
  "fst (requestPassword env cfg data s) =
     Inr (action_outcome env cfg RequestPass False JUndefined
            (http env (request_for cfg RequestPass data)))"
  "requests (snd (requestPassword env cfg data s)) =
     requests s @ [request_for cfg RequestPass data]"
  by (simp_all add: requestPassword_def rx_defs outcome_defs Let_def split: sum.splits)

lemma resetPassword_run:
  "fst (resetPassword env cfg data s) =
     Inr (action_outcome env cfg ResetPass False JUndefined
            (http env (request_for cfg ResetPass (JObj (reset_body env cfg data)))))"
  "requests (snd (resetPassword env cfg data s)) =
     requests s @ [request_for cfg ResetPass (JObj (reset_body env cfg data))]"
  by (simp_all add: resetPassword_def reset_body_def rx_defs outcome_defs Let_def
        split: sum.splits)

lemma logout_user_run:
  "fst (logout_user env cfg s) =
     Inr (action_outcome env cfg Logout False JUndefined
            (if \<not> truthy (getActionEndpoint cfg Logout) then Inr EmptyObject
             else http env (request_for cfg Logout JUndefined)))"
  "requests (snd (logout_user env cfg s)) =
     requests s @ (if \<not> truthy (getActionEndpoint cfg Logout) then []
                   else [request_for cfg Logout JUndefined])"
  by (simp_all add: logout_user_def rx_defs outcome_defs Let_def split: sum.splits)

section \<open>Getters that do not throw\<close>

lemma invoke_never_throws: "invoke_throwing never_throws kind g module res = invoke kind g module res"
  by (simp add: invoke_throwing_def invoke_def never_throws_def)

lemma validateToken_never_throws:
  "validateToken_throwing never_throws env cfg module = validateToken env cfg module"
  by (simp add: validateToken_throwing_def validateToken_def invoke_never_throws cong del: if_weak_cong)

lemma authenticate_never_throws:
  "authenticate_throwing never_throws env cfg data = authenticate env cfg data"
  by (simp add: authenticate_throwing_def authenticate_def invoke_never_throws
        validateToken_never_throws cong del: if_weak_cong)

lemma register_never_throws:
  "register_throwing never_throws env cfg data = register_user env cfg data"
  by (simp add: register_throwing_def register_user_def invoke_never_throws
        validateToken_never_throws cong del: if_weak_cong)

lemma refreshToken_never_throws:
  "refreshToken_throwing never_throws env cfg data = refresh_token env cfg data"
  by (simp add: refreshToken_throwing_def refresh_token_def invoke_never_throws
        validateToken_never_throws cong del: if_weak_cong)

lemma requestPassword_never_throws:
  "requestPassword_throwing never_throws env cfg data = requestPassword env cfg data"
  by (simp add: requestPassword_throwing_def requestPassword_def invoke_never_throws cong del: if_weak_cong)

lemma resetPassword_never_throws:
  "resetPassword_throwing never_throws env cfg form = resetPassword env cfg form"
  by (simp add: resetPassword_throwing_def resetPassword_def invoke_never_throws cong del: if_weak_cong)

lemma logout_never_throws:
  "logout_throwing never_throws env cfg = logout_user env cfg"
  by (simp add: logout_throwing_def logout_user_def invoke_never_throws cong del: if_weak_cong)

section \<open>The claims\<close>

text \<open>
  Claim C1. For each of the six actions: when the action's \<open>alwaysFail\<close> flag is
  \<open>true\<close> in the configuration, the method's observable hands its subscriber a result
  with \<open>success = false\<close>, whatever the transport answers, a response or a failure.
\<close>

theorem alwaysFail_gives_failure:
  "(alwaysFail (login cfg) = Some True \<longrightarrow>
      (\<exists>r. emitted (subscribe (authenticate env cfg data)) = Some r \<and> \<not> success r)) \<and>
   (alwaysFail (register cfg) = Some True \<longrightarrow>
      (\<exists>r. emitted (subscribe (register_user env cfg data)) = Some r \<and> \<not> success r)) \<and>
   (alwaysFail (logout cfg) = Some True \<longrightarrow>
      (\<exists>r. emitted (subscribe (logout_user env cfg)) = Some r \<and> \<not> success r)) \<and>
   (alwaysFail (requestPass cfg) = Some True \<longrightarrow>
      (\<exists>r. emitted (subscribe (requestPassword env cfg data)) = Some r \<and> \<not> success r)) \<and>
   (alwaysFail (resetPass cfg) = Some True \<longrightarrow>
      (\<exists>r. emitted (subscribe (resetPassword env cfg form)) = Some r \<and> \<not> success r)) \<and>
   (alwaysFail (refreshToken cfg) = Some True \<longrightarrow>
      (\<exists>r. emitted (subscribe (refresh_token env cfg data)) = Some r \<and> \<not> success r))"
proof (intro conjI impI)
  assume "alwaysFail (login cfg) = Some True"
  then show "\<exists>r. emitted (subscribe (authenticate env cfg data)) = Some r \<and> \<not> success r"
    by (simp add: emitted_subscribe authenticate_run outcome_alwaysFail)
next
  assume "alwaysFail (register cfg) = Some True"
  then show "\<exists>r. emitted (subscribe (register_user env cfg data)) = Some r \<and> \<not> success r"
    by (simp add: emitted_subscribe register_user_run outcome_alwaysFail)
next
  assume "alwaysFail (logout cfg) = Some True"
  then show "\<exists>r. emitted (subscribe (logout_user env cfg)) = Some r \<and> \<not> success r"
    by (simp add: emitted_subscribe logout_user_run outcome_alwaysFail)
next
  assume "alwaysFail (requestPass cfg) = Some True"
  then show "\<exists>r. emitted (subscribe (requestPassword env cfg data)) = Some r \<and> \<not> success r"
    by (simp add: emitted_subscribe requestPassword_run outcome_alwaysFail)
next
  assume "alwaysFail (resetPass cfg) = Some True"
  then show "\<exists>r. emitted (subscribe (resetPassword env cfg form)) = Some r \<and> \<not> success r"
    by (simp add: emitted_subscribe resetPassword_run outcome_alwaysFail)
next
  assume "alwaysFail (refreshToken cfg) = Some True"
  then show "\<exists>r. emitted (subscribe (refresh_token env cfg data)) = Some r \<and> \<not> success r"
    by (simp add: emitted_subscribe refresh_token_run outcome_alwaysFail)
qed

theorem alwaysFail_gives_failure_witness:
  "alwaysFail (login config_always_fail) = Some True \<and>
   alwaysFail (register config_always_fail) = Some True \<and>
   alwaysFail (logout config_always_fail) = Some True \<and>
   alwaysFail (requestPass config_always_fail) = Some True \<and>
   alwaysFail (resetPass config_always_fail) = Some True \<and>
   alwaysFail (refreshToken config_always_fail) = Some True \<and>
   (\<exists>r. emitted (subscribe (authenticate (env_answering (Inr response_with_token))
            config_always_fail JUndefined)) = Some r \<and> \<not> success r) \<and>
   (\<exists>r. emitted (subscribe (register_user (env_answering (Inr response_with_token))
            config_always_fail JUndefined)) = Some r \<and> \<not> success r) \<and>
   (\<exists>r. emitted (subscribe (logout_user (env_answering (Inr response_with_token))
            config_always_fail)) = Some r \<and> \<not> success r) \<and>
   (\<exists>r. emitted (subscribe (requestPassword (env_answering (Inr response_with_token))
            config_always_fail JUndefined)) = Some r \<and> \<not> success r) \<and>
   (\<exists>r. emitted (subscribe (resetPassword (env_answering (Inr response_with_token))
            config_always_fail None)) = Some r \<and> \<not> success r) \<and>
   (\<exists>r. emitted (subscribe (refresh_token (env_answering (Inr response_with_token))
            config_always_fail JUndefined)) = Some r \<and> \<not> success r)"
  using alwaysFail_gives_failure
    [of config_always_fail "env_answering (Inr response_with_token)" JUndefined None]
  by (simp add: config_always_fail_def)

text \<open>
  Claim C2, as amended. With the default configuration, \<open>authenticate\<close> on a 200
  response whose body has no value at \<open>data.token\<close> ends in a result with
  \<open>success = false\<close> and the errors \<open>["Something went wrong."]\<close>, and warns once
  with a text that names the token key \<open>data.token\<close>. The failure thrown by the token
  validation is an \<open>Error\<close>, not an \<open>HttpErrorResponse\<close>, so the errors getter and
  the default errors of login are not used.
\<close>

theorem login_without_token:
  assumes "http env (request_for defaultConfig Login data) = Inr (HttpResponse 200 body)"
    and "getDeepFromObject body ''data.token'' None = JUndefined"
  shows "emitted (subscribe (authenticate env defaultConfig data)) =
           Some \<lparr> success = False,
                  response = Error ''Could not extract token from the response.'',
                  redirect = None,
                  errors = JArr [JStr ''Something went wrong.''],
                  messages = None, token = None \<rparr>
         \<and> warnings (snd (subscribe (authenticate env defaultConfig data))) =
             [token_warning ''data.token'' (function_text env (tokenGetter defaultConfig))]"
proof
  have flag: "\<not> truthy_flag (alwaysFail (module_config defaultConfig Login))"
    by (simp add: defaultConfig_def)
  have tok: "\<not> truthy (tokenGetter defaultConfig Login (HttpResponse 200 body))"
    using assms(2) by (simp add: default_token_absent)
  have "action_outcome env defaultConfig Login True data (Inr (HttpResponse 200 body)) =
          failure_result defaultConfig Login (Error ''Could not extract token from the response.'')"
    using flag tok by (simp add: action_outcome_def)
  then show "emitted (subscribe (authenticate env defaultConfig data)) =
           Some \<lparr> success = False,
                  response = Error ''Could not extract token from the response.'',
                  redirect = None,
                  errors = JArr [JStr ''Something went wrong.''],
                  messages = None, token = None \<rparr>"
    using assms(1)
    by (simp add: emitted_subscribe authenticate_run failure_result_def defaultConfig_def)
  have "token_action_warnings env defaultConfig Login (Inr (HttpResponse 200 body)) =
          [token_warning (token_key defaultConfig) (function_text env (tokenGetter defaultConfig))]"
    using flag tok by (simp add: token_action_warnings_def)
  then show "warnings (snd (subscribe (authenticate env defaultConfig data))) =
             [token_warning ''data.token'' (function_text env (tokenGetter defaultConfig))]"
    using assms(1) by (simp add: subscribe_def authenticate_run defaultConfig_def)
qed

theorem login_without_token_witness:
  "http (env_answering (Inr response_without_token)) (request_for defaultConfig Login JUndefined)
     = Inr (HttpResponse 200 (JObj []))
   \<and> getDeepFromObject (JObj []) ''data.token'' None = JUndefined
   \<and> emitted (subscribe (authenticate (env_answering (Inr response_without_token))
         defaultConfig JUndefined)) =
           Some \<lparr> success = False,
                  response = Error ''Could not extract token from the response.'',
                  redirect = None,
                  errors = JArr [JStr ''Something went wrong.''],
                  messages = None, token = None \<rparr>
   \<and> warnings (snd (subscribe (authenticate (env_answering (Inr response_without_token))
         defaultConfig JUndefined))) =
         [token_warning ''data.token'' ''getter'']"
proof -
  have a: "http (env_answering (Inr response_without_token))
             (request_for defaultConfig Login JUndefined) = Inr (HttpResponse 200 (JObj []))"
    by (simp add: env_answering_def response_without_token_def)
  have b: "getDeepFromObject (JObj []) ''data.token'' None = JUndefined"
    by (simp add: getDeepFromObject_def)
  have c: "function_text (env_answering (Inr response_without_token)) (tokenGetter defaultConfig)
             = ''getter''"
    by (simp add: env_answering_def)
  show ?thesis
    using login_without_token [OF a b] a b c by simp
qed

text \<open>
  The claim C2 as stated, with the errors of that result equal to the default errors of
  login, fails on the response \<open>{status: 200, body: {}}\<close>.
\<close>

theorem login_without_token_errors_counterexample:
  "map_option errors
     (emitted (subscribe (authenticate (env_answering (Inr response_without_token))
        defaultConfig JUndefined)))
   \<noteq> Some (JArr [JStr ''Login/Email combination is not correct, please try again.''])"
proof -
  have flag: "\<not> truthy_flag (alwaysFail (module_config defaultConfig Login))"
    by (simp add: defaultConfig_def)
  have tok: "\<not> truthy (tokenGetter defaultConfig Login (HttpResponse 200 (JObj [])))"
    by (simp add: default_token_absent getDeepFromObject_def)
  have "action_outcome (env_answering (Inr response_without_token)) defaultConfig Login True
          JUndefined (Inr (HttpResponse 200 (JObj []))) =
        failure_result defaultConfig Login (Error ''Could not extract token from the response.'')"
    using flag tok by (simp add: action_outcome_def)
  then have "emitted (subscribe (authenticate (env_answering (Inr response_without_token))
        defaultConfig JUndefined)) =
      Some (failure_result defaultConfig Login (Error ''Could not extract token from the response.''))"
    by (simp add: emitted_def subscribe_def authenticate_run
          env_answering_def response_without_token_def)
  then show ?thesis by (simp add: failure_result_def)
qed




text \<open>
  Claim C4. For the three actions that carry a token, \<open>authenticate\<close>, \<open>register\<close> and
  \<open>refreshToken\<close>: when the transport answers with a response on which the configured
  token getter gives a falsy value, the subscriber gets a result with
  \<open>success = false\<close>.
\<close>

theorem missing_token_gives_failure:
  "(http env (request_for cfg Login data) = Inr res \<and> \<not> truthy (tokenGetter cfg Login res) \<longrightarrow>
      (\<exists>r. emitted (subscribe (authenticate env cfg data)) = Some r \<and> \<not> success r)) \<and>
   (http env (request_for cfg Register data) = Inr res \<and> \<not> truthy (tokenGetter cfg Register res) \<longrightarrow>
      (\<exists>r. emitted (subscribe (register_user env cfg data)) = Some r \<and> \<not> success r)) \<and>
   (http env (request_for cfg RefreshToken data) = Inr res
      \<and> \<not> truthy (tokenGetter cfg RefreshToken res) \<longrightarrow>
      (\<exists>r. emitted (subscribe (refresh_token env cfg data)) = Some r \<and> \<not> success r))"
proof (intro conjI impI)
  assume "http env (request_for cfg Login data) = Inr res \<and> \<not> truthy (tokenGetter cfg Login res)"
  then show "\<exists>r. emitted (subscribe (authenticate env cfg data)) = Some r \<and> \<not> success r"
    by (simp add: emitted_def subscribe_def authenticate_run outcome_token_missing)
next
  assume "http env (request_for cfg Register data) = Inr res
            \<and> \<not> truthy (tokenGetter cfg Register res)"
  then show "\<exists>r. emitted (subscribe (register_user env cfg data)) = Some r \<and> \<not> success r"
    by (simp add: emitted_def subscribe_def register_user_run outcome_token_missing)
next
  assume "http env (request_for cfg RefreshToken data) = Inr res
            \<and> \<not> truthy (tokenGetter cfg RefreshToken res)"
  then show "\<exists>r. emitted (subscribe (refresh_token env cfg data)) = Some r \<and> \<not> success r"
    by (simp add: emitted_def subscribe_def refresh_token_run outcome_token_missing)
qed

theorem missing_token_gives_failure_witness:
  "http (env_answering (Inr response_without_token)) (request_for defaultConfig Login JUndefined)
     = Inr response_without_token
   \<and> \<not> truthy (tokenGetter defaultConfig Login response_without_token)
   \<and> \<not> truthy (tokenGetter defaultConfig Register response_without_token)
   \<and> \<not> truthy (tokenGetter defaultConfig RefreshToken response_without_token)
   \<and> (\<exists>r. emitted (subscribe (authenticate (env_answering (Inr response_without_token))
          defaultConfig JUndefined)) = Some r \<and> \<not> success r)
   \<and> (\<exists>r. emitted (subscribe (register_user (env_answering (Inr response_without_token))
          defaultConfig JUndefined)) = Some r \<and> \<not> success r)
   \<and> (\<exists>r. emitted (subscribe (refresh_token (env_answering (Inr response_without_token))
          defaultConfig JUndefined)) = Some r \<and> \<not> success r)"
proof -
  have a: "http (env_answering (Inr response_without_token)) req = Inr response_without_token"
    for req
    by (simp add: env_answering_def)
  have t: "\<not> truthy (tokenGetter defaultConfig module response_without_token)" for module
    by (simp add: response_without_token_def default_token_absent getDeepFromObject_def)
  show ?thesis
    using missing_token_gives_failure
      [of "env_answering (Inr response_without_token)" defaultConfig JUndefined
          response_without_token]
      a t
    by simp
qed

text \<open>
  Claim C5. On the success branch (the transport answered with \<open>res\<close>, or \<open>logout\<close>
  had no URL and \<open>res\<close> is its placeholder; \<open>alwaysFail\<close> is not set; for the three
  actions that carry a token the token getter's value on \<open>res\<close> is truthy) the result is
  built from \<open>true\<close>, \<open>res\<close>, the action's \<open>redirect.success\<close>, the empty list of
  errors and the messages getter's value on the action and \<open>res\<close>; the token getter's
  value is the sixth argument for \<open>authenticate\<close>, \<open>register\<close> and \<open>refreshToken\<close>
  and is left out for \<open>requestPassword\<close>, \<open>resetPassword\<close> and \<open>logout\<close>. With the
  default configuration, the login response with body \<open>{data: {token: "abc"}}\<close> gives
  the token \<open>abc\<close>, the default message of login and the redirect \<open>/\<close>.
\<close>

theorem success_branch_result:
  "(http env (request_for cfg Login data) = Inr res
      \<and> \<not> truthy_flag (alwaysFail (login cfg)) \<and> truthy (tokenGetter cfg Login res) \<longrightarrow>
    emitted (subscribe (authenticate env cfg data)) =
      Some \<lparr> success = True, response = res, redirect = redirect_success (login cfg),
             errors = JArr [], messages = Some (messagesGetter cfg Login res),
             token = Some (tokenGetter cfg Login res) \<rparr>) \<and>
   (http env (request_for cfg Register data) = Inr res
      \<and> \<not> truthy_flag (alwaysFail (register cfg)) \<and> truthy (tokenGetter cfg Register res) \<longrightarrow>
    emitted (subscribe (register_user env cfg data)) =
      Some \<lparr> success = True, response = res, redirect = redirect_success (register cfg),
             errors = JArr [], messages = Some (messagesGetter cfg Register res),
             token = Some (tokenGetter cfg Register res) \<rparr>) \<and>
   (http env (request_for cfg RefreshToken data) = Inr res
      \<and> \<not> truthy_flag (alwaysFail (refreshToken cfg))
      \<and> truthy (tokenGetter cfg RefreshToken res) \<longrightarrow>
    emitted (subscribe (refresh_token env cfg data)) =
      Some \<lparr> success = True, response = res, redirect = redirect_success (refreshToken cfg),
             errors = JArr [], messages = Some (messagesGetter cfg RefreshToken res),
             token = Some (tokenGetter cfg RefreshToken res) \<rparr>) \<and>
   (http env (request_for cfg RequestPass data) = Inr res
      \<and> \<not> truthy_flag (alwaysFail (requestPass cfg)) \<longrightarrow>
    emitted (subscribe (requestPassword env cfg data)) =
      Some \<lparr> success = True, response = res, redirect = redirect_success (requestPass cfg),
             errors = JArr [], messages = Some (messagesGetter cfg RequestPass res),
             token = None \<rparr>) \<and>
   (http env (request_for cfg ResetPass (JObj (reset_body env cfg form))) = Inr res
      \<and> \<not> truthy_flag (alwaysFail (resetPass cfg)) \<longrightarrow>
    emitted (subscribe (resetPassword env cfg form)) =
      Some \<lparr> success = True, response = res, redirect = redirect_success (resetPass cfg),
             errors = JArr [], messages = Some (messagesGetter cfg ResetPass res),
             token = None \<rparr>) \<and>
   ((if truthy (getActionEndpoint cfg Logout) then http env (request_for cfg Logout JUndefined)
     else Inr EmptyObject) = Inr res
      \<and> \<not> truthy_flag (alwaysFail (logout cfg)) \<longrightarrow>
    emitted (subscribe (logout_user env cfg)) =
      Some \<lparr> success = True, response = res, redirect = redirect_success (logout cfg),
             errors = JArr [], messages = Some (messagesGetter cfg Logout res),
             token = None \<rparr>) \<and>
   (http env (request_for defaultConfig Login data) =
      Inr (HttpResponse 200 (JObj [(''data'', JObj [(''token'', JStr ''abc'')])])) \<longrightarrow>
    emitted (subscribe (authenticate env defaultConfig data)) =
      Some \<lparr> success = True,
             response = HttpResponse 200 (JObj [(''data'', JObj [(''token'', JStr ''abc'')])]),
             redirect = Some ''/'', errors = JArr [],
             messages = Some (JArr [JStr ''You have been successfully logged in.'']),
             token = Some (JStr ''abc'') \<rparr>)"
proof (intro conjI impI)
  assume "http env (request_for cfg Login data) = Inr res
      \<and> \<not> truthy_flag (alwaysFail (login cfg)) \<and> truthy (tokenGetter cfg Login res)"
  then show "emitted (subscribe (authenticate env cfg data)) =
      Some \<lparr> success = True, response = res, redirect = redirect_success (login cfg),
             errors = JArr [], messages = Some (messagesGetter cfg Login res),
             token = Some (tokenGetter cfg Login res) \<rparr>"
    by (simp add: emitted_def subscribe_def authenticate_run outcome_success success_result_def)
next
  assume "http env (request_for cfg Register data) = Inr res
      \<and> \<not> truthy_flag (alwaysFail (register cfg)) \<and> truthy (tokenGetter cfg Register res)"
  then show "emitted (subscribe (register_user env cfg data)) =
      Some \<lparr> success = True, response = res, redirect = redirect_success (register cfg),
             errors = JArr [], messages = Some (messagesGetter cfg Register res),
             token = Some (tokenGetter cfg Register res) \<rparr>"
    by (simp add: emitted_def subscribe_def register_user_run outcome_success success_result_def)
next
  assume "http env (request_for cfg RefreshToken data) = Inr res
      \<and> \<not> truthy_flag (alwaysFail (refreshToken cfg))
      \<and> truthy (tokenGetter cfg RefreshToken res)"
  then show "emitted (subscribe (refresh_token env cfg data)) =
      Some \<lparr> success = True, response = res, redirect = redirect_success (refreshToken cfg),
             errors = JArr [], messages = Some (messagesGetter cfg RefreshToken res),
             token = Some (tokenGetter cfg RefreshToken res) \<rparr>"
    by (simp add: emitted_def subscribe_def refresh_token_run outcome_success success_result_def)
next
  assume "http env (request_for cfg RequestPass data) = Inr res
      \<and> \<not> truthy_flag (alwaysFail (requestPass cfg))"
  then show "emitted (subscribe (requestPassword env cfg data)) =
      Some \<lparr> success = True, response = res, redirect = redirect_success (requestPass cfg),
             errors = JArr [], messages = Some (messagesGetter cfg RequestPass res),
             token = None \<rparr>"
    by (simp add: emitted_def subscribe_def requestPassword_run outcome_success success_result_def)
next
  assume "http env (request_for cfg ResetPass (JObj (reset_body env cfg form))) = Inr res
      \<and> \<not> truthy_flag (alwaysFail (resetPass cfg))"
  then show "emitted (subscribe (resetPassword env cfg form)) =
      Some \<lparr> success = True, response = res, redirect = redirect_success (resetPass cfg),
             errors = JArr [], messages = Some (messagesGetter cfg ResetPass res),
             token = None \<rparr>"
    by (simp add: emitted_def subscribe_def resetPassword_run outcome_success success_result_def)
next
  assume "(if truthy (getActionEndpoint cfg Logout) then http env (request_for cfg Logout JUndefined)
     else Inr EmptyObject) = Inr res
      \<and> \<not> truthy_flag (alwaysFail (logout cfg))"
  then show "emitted (subscribe (logout_user env cfg)) =
      Some \<lparr> success = True, response = res, redirect = redirect_success (logout cfg),
             errors = JArr [], messages = Some (messagesGetter cfg Logout res),
             token = None \<rparr>"
    by (auto simp add: emitted_def subscribe_def logout_user_run outcome_success
          success_result_def split: if_splits)
next
  let ?res = "HttpResponse 200 (JObj [(''data'', JObj [(''token'', JStr ''abc'')])])"
  assume a: "http env (request_for defaultConfig Login data) = Inr ?res"
  have flag: "\<not> truthy_flag (alwaysFail (module_config defaultConfig Login))"
    by (simp add: defaultConfig_def)
  have tok: "tokenGetter defaultConfig Login ?res = JStr ''abc''"
    by (simp add: default_token_absent getDeepFromObject_def)
  have dm: "defaultMessages (login defaultConfig) =
              [''You have been successfully logged in.'']"
    by (simp add: defaultConfig_def)
  have msgs: "messagesGetter defaultConfig Login ?res =
                JArr [JStr ''You have been successfully logged in.'']"
    by (simp add: default_messages_present dm getDeepFromObject_def strings_def)
  have "action_outcome env defaultConfig Login True data (Inr ?res) =
          success_result defaultConfig Login True ?res"
    using flag tok by (simp add: outcome_success)
  then show "emitted (subscribe (authenticate env defaultConfig data)) =
      Some \<lparr> success = True, response = ?res,
             redirect = Some ''/'', errors = JArr [],
             messages = Some (JArr [JStr ''You have been successfully logged in.'']),
             token = Some (JStr ''abc'') \<rparr>"
    using a tok msgs
    by (simp add: emitted_def subscribe_def authenticate_run success_result_def defaultConfig_def)
qed

theorem success_branch_result_witness:
  "http (env_answering (Inr response_with_token)) (request_for defaultConfig Login JUndefined)
     = Inr response_with_token
   \<and> \<not> truthy_flag (alwaysFail (login defaultConfig))
   \<and> truthy (tokenGetter defaultConfig Login response_with_token)
   \<and> emitted (subscribe (authenticate (env_answering (Inr response_with_token)) defaultConfig
         JUndefined)) =
       Some \<lparr> success = True, response = response_with_token, redirect = Some ''/'',
              errors = JArr [],
              messages = Some (JArr [JStr ''You have been successfully logged in.'']),
              token = Some (JStr ''abc'') \<rparr>
   \<and> emitted (subscribe (register_user (env_answering (Inr response_with_token)) defaultConfig
         JUndefined)) =
       Some \<lparr> success = True, response = response_with_token, redirect = Some ''/'',
              errors = JArr [],
              messages = Some (JArr [JStr ''You have been successfully registered.'']),
              token = Some (JStr ''abc'') \<rparr>
   \<and> emitted (subscribe (refresh_token (env_answering (Inr response_with_token)) defaultConfig
         JUndefined)) =
       Some \<lparr> success = True, response = response_with_token, redirect = None,
              errors = JArr [],
              messages = Some (JArr [JStr ''Your token has been successfully refreshed.'']),
              token = Some (JStr ''abc'') \<rparr>
   \<and> emitted (subscribe (requestPassword (env_answering (Inr response_with_token)) defaultConfig
         JUndefined)) =
       Some \<lparr> success = True, response = response_with_token, redirect = Some ''/'',
              errors = JArr [],
              messages = Some (JArr [JStr ''Reset password instructions have been sent to your email.'']),
              token = None \<rparr>
   \<and> emitted (subscribe (resetPassword (env_answering (Inr response_with_token)) defaultConfig
         None)) =
       Some \<lparr> success = True, response = response_with_token, redirect = Some ''/'',
              errors = JArr [],
              messages = Some (JArr [JStr ''Your password has been successfully changed.'']),
              token = None \<rparr>
   \<and> emitted (subscribe (logout_user (env_answering (Inr response_with_token)) defaultConfig)) =
       Some \<lparr> success = True, response = response_with_token, redirect = Some ''/'',
              errors = JArr [],
              messages = Some (JArr [JStr ''You have been successfully logged out.'']),
              token = None \<rparr>"
proof -
  have a: "http (env_answering (Inr response_with_token)) req = Inr response_with_token" for req
    by (simp add: env_answering_def)
  have f: "\<not> truthy_flag (alwaysFail (login defaultConfig))"
      "\<not> truthy_flag (alwaysFail (register defaultConfig))"
      "\<not> truthy_flag (alwaysFail (refreshToken defaultConfig))"
      "\<not> truthy_flag (alwaysFail (requestPass defaultConfig))"
      "\<not> truthy_flag (alwaysFail (resetPass defaultConfig))"
      "\<not> truthy_flag (alwaysFail (logout defaultConfig))"
    by (simp_all add: defaultConfig_def)
  have t: "tokenGetter defaultConfig module response_with_token = JStr ''abc''" for module
    by (simp add: response_with_token_def default_token_absent getDeepFromObject_def)
  have dm: "defaultMessages (login defaultConfig) = [''You have been successfully logged in.'']"
      "defaultMessages (register defaultConfig) = [''You have been successfully registered.'']"
      "defaultMessages (refreshToken defaultConfig) =
         [''Your token has been successfully refreshed.'']"
      "defaultMessages (requestPass defaultConfig) =
         [''Reset password instructions have been sent to your email.'']"
      "defaultMessages (resetPass defaultConfig) =
         [''Your password has been successfully changed.'']"
      "defaultMessages (logout defaultConfig) = [''You have been successfully logged out.'']"
    by (simp_all add: defaultConfig_def)
  have m: "messagesGetter defaultConfig module response_with_token =
             strings (defaultMessages (module_config defaultConfig module))" for module
    by (simp add: response_with_token_def default_messages_present getDeepFromObject_def)
  have r: "redirect_success (login defaultConfig) = Some ''/''"
      "redirect_success (register defaultConfig) = Some ''/''"
      "redirect_success (refreshToken defaultConfig) = None"
      "redirect_success (requestPass defaultConfig) = Some ''/''"
      "redirect_success (resetPass defaultConfig) = Some ''/''"
      "redirect_success (logout defaultConfig) = Some ''/''"
    by (simp_all add: defaultConfig_def)
  have u: "truthy (getActionEndpoint defaultConfig Logout)"
    by (simp add: getActionEndpoint_def defaultConfig_def)
  show ?thesis
    using success_branch_result
        [of "env_answering (Inr response_with_token)" defaultConfig JUndefined
            response_with_token None]
      a f t dm m r u
    by (simp add: strings_def)
qed

text \<open>
  Claim C6. On the failure branch of each of the six actions the result's response is
  the failure caught, and its errors are the errors getter's value on the action and that
  failure when it is an \<open>HttpErrorResponse\<close>, and the one fixed text
  \<open>Something went wrong.\<close> otherwise, whatever the configuration. In particular a
  failure of the transport is caught and treated so.
\<close>

theorem failure_branch_errors:
  "(emitted (subscribe (authenticate env cfg data)) = Some r \<and> \<not> success r \<longrightarrow>
      errors r =
        (if isHttpErrorResponse (response r) then errorsGetter cfg Login (response r)
                else JArr [JStr ''Something went wrong.''])) \<and>
   (emitted (subscribe (register_user env cfg data)) = Some r \<and> \<not> success r \<longrightarrow>
      errors r =
        (if isHttpErrorResponse (response r) then errorsGetter cfg Register (response r)
                else JArr [JStr ''Something went wrong.''])) \<and>
   (emitted (subscribe (refresh_token env cfg data)) = Some r \<and> \<not> success r \<longrightarrow>
      errors r =
        (if isHttpErrorResponse (response r) then errorsGetter cfg RefreshToken (response r)
                else JArr [JStr ''Something went wrong.''])) \<and>
   (emitted (subscribe (requestPassword env cfg data)) = Some r \<and> \<not> success r \<longrightarrow>
      errors r =
        (if isHttpErrorResponse (response r) then errorsGetter cfg RequestPass (response r)
                else JArr [JStr ''Something went wrong.''])) \<and>
   (emitted (subscribe (resetPassword env cfg form)) = Some r \<and> \<not> success r \<longrightarrow>
      errors r =
        (if isHttpErrorResponse (response r) then errorsGetter cfg ResetPass (response r)
                else JArr [JStr ''Something went wrong.''])) \<and>
   (emitted (subscribe (logout_user env cfg)) = Some r \<and> \<not> success r \<longrightarrow>
      errors r =
        (if isHttpErrorResponse (response r) then errorsGetter cfg Logout (response r)
                else JArr [JStr ''Something went wrong.''])) \<and>
   (http env (request_for cfg Login data) = Inl e \<longrightarrow>
      emitted (subscribe (authenticate env cfg data)) =
        Some \<lparr> success = False, response = e, redirect = redirect_failure (login cfg),
               errors =
                 (if isHttpErrorResponse e then errorsGetter cfg Login e
                  else JArr [JStr ''Something went wrong.'']),
               messages = None, token = None \<rparr>) \<and>
   (http env (request_for cfg Register data) = Inl e \<longrightarrow>
      emitted (subscribe (register_user env cfg data)) =
        Some \<lparr> success = False, response = e, redirect = redirect_failure (register cfg),
               errors =
                 (if isHttpErrorResponse e then errorsGetter cfg Register e
                  else JArr [JStr ''Something went wrong.'']),
               messages = None, token = None \<rparr>) \<and>
   (http env (request_for cfg RefreshToken data) = Inl e \<longrightarrow>
      emitted (subscribe (refresh_token env cfg data)) =
        Some \<lparr> success = False, response = e, redirect = redirect_failure (refreshToken cfg),
               errors =
                 (if isHttpErrorResponse e then errorsGetter cfg RefreshToken e
                  else JArr [JStr ''Something went wrong.'']),
               messages = None, token = None \<rparr>) \<and>
   (http env (request_for cfg RequestPass data) = Inl e \<longrightarrow>
      emitted (subscribe (requestPassword env cfg data)) =
        Some \<lparr> success = False, response = e, redirect = redirect_failure (requestPass cfg),
               errors =
                 (if isHttpErrorResponse e then errorsGetter cfg RequestPass e
                  else JArr [JStr ''Something went wrong.'']),
               messages = None, token = None \<rparr>) \<and>
   (http env (request_for cfg ResetPass (JObj (reset_body env cfg form))) = Inl e \<longrightarrow>
      emitted (subscribe (resetPassword env cfg form)) =
        Some \<lparr> success = False, response = e, redirect = redirect_failure (resetPass cfg),
               errors =
                 (if isHttpErrorResponse e then errorsGetter cfg ResetPass e
                  else JArr [JStr ''Something went wrong.'']),
               messages = None, token = None \<rparr>) \<and>
   (truthy (getActionEndpoint cfg Logout)
      \<and> http env (request_for cfg Logout JUndefined) = Inl e \<longrightarrow>
      emitted (subscribe (logout_user env cfg)) =
        Some \<lparr> success = False, response = e, redirect = redirect_failure (logout cfg),
               errors =
                 (if isHttpErrorResponse e then errorsGetter cfg Logout e
                  else JArr [JStr ''Something went wrong.'']),
               messages = None, token = None \<rparr>)"
proof (intro conjI)
  show "emitted (subscribe (authenticate env cfg data)) = Some r \<and> \<not> success r \<longrightarrow>
      errors r =
        (if isHttpErrorResponse (response r) then errorsGetter cfg Login (response r)
                else JArr [JStr ''Something went wrong.''])"
    by (auto simp add: emitted_def subscribe_def authenticate_run outcome_errors)
next
  show "emitted (subscribe (register_user env cfg data)) = Some r \<and> \<not> success r \<longrightarrow>
      errors r =
        (if isHttpErrorResponse (response r) then errorsGetter cfg Register (response r)
                else JArr [JStr ''Something went wrong.''])"
    by (auto simp add: emitted_def subscribe_def register_user_run outcome_errors)
next
  show "emitted (subscribe (refresh_token env cfg data)) = Some r \<and> \<not> success r \<longrightarrow>
      errors r =
        (if isHttpErrorResponse (response r) then errorsGetter cfg RefreshToken (response r)
                else JArr [JStr ''Something went wrong.''])"
    by (auto simp add: emitted_def subscribe_def refresh_token_run outcome_errors)
next
  show "emitted (subscribe (requestPassword env cfg data)) = Some r \<and> \<not> success r \<longrightarrow>
      errors r =
        (if isHttpErrorResponse (response r) then errorsGetter cfg RequestPass (response r)
                else JArr [JStr ''Something went wrong.''])"
    by (auto simp add: emitted_def subscribe_def requestPassword_run outcome_errors)
next
  show "emitted (subscribe (resetPassword env cfg form)) = Some r \<and> \<not> success r \<longrightarrow>
      errors r =
        (if isHttpErrorResponse (response r) then errorsGetter cfg ResetPass (response r)
                else JArr [JStr ''Something went wrong.''])"
    by (auto simp add: emitted_def subscribe_def resetPassword_run outcome_errors)
next
  show "emitted (subscribe (logout_user env cfg)) = Some r \<and> \<not> success r \<longrightarrow>
      errors r =
        (if isHttpErrorResponse (response r) then errorsGetter cfg Logout (response r)
                else JArr [JStr ''Something went wrong.''])"
    by (auto simp add: emitted_def subscribe_def logout_user_run outcome_errors)
next
  show "http env (request_for cfg Login data) = Inl e \<longrightarrow>
      emitted (subscribe (authenticate env cfg data)) =
        Some \<lparr> success = False, response = e, redirect = redirect_failure (login cfg),
               errors =
                 (if isHttpErrorResponse e then errorsGetter cfg Login e
                  else JArr [JStr ''Something went wrong.'']),
               messages = None, token = None \<rparr>"
    by (simp add: emitted_def subscribe_def authenticate_run outcome_transport_failure
          failure_result_def)
next
  show "http env (request_for cfg Register data) = Inl e \<longrightarrow>
      emitted (subscribe (register_user env cfg data)) =
        Some \<lparr> success = False, response = e, redirect = redirect_failure (register cfg),
               errors =
                 (if isHttpErrorResponse e then errorsGetter cfg Register e
                  else JArr [JStr ''Something went wrong.'']),
               messages = None, token = None \<rparr>"
    by (simp add: emitted_def subscribe_def register_user_run outcome_transport_failure
          failure_result_def)
next
  show "http env (request_for cfg RefreshToken data) = Inl e \<longrightarrow>
      emitted (subscribe (refresh_token env cfg data)) =
        Some \<lparr> success = False, response = e, redirect = redirect_failure (refreshToken cfg),
               errors =
                 (if isHttpErrorResponse e then errorsGetter cfg RefreshToken e
                  else JArr [JStr ''Something went wrong.'']),
               messages = None, token = None \<rparr>"
    by (simp add: emitted_def subscribe_def refresh_token_run outcome_transport_failure
          failure_result_def)
next
  show "http env (request_for cfg RequestPass data) = Inl e \<longrightarrow>
      emitted (subscribe (requestPassword env cfg data)) =
        Some \<lparr> success = False, response = e, redirect = redirect_failure (requestPass cfg),
               errors =
                 (if isHttpErrorResponse e then errorsGetter cfg RequestPass e
                  else JArr [JStr ''Something went wrong.'']),
               messages = None, token = None \<rparr>"
    by (simp add: emitted_def subscribe_def requestPassword_run outcome_transport_failure
          failure_result_def)
next
  show "http env (request_for cfg ResetPass (JObj (reset_body env cfg form))) = Inl e \<longrightarrow>
      emitted (subscribe (resetPassword env cfg form)) =
        Some \<lparr> success = False, response = e, redirect = redirect_failure (resetPass cfg),
               errors =
                 (if isHttpErrorResponse e then errorsGetter cfg ResetPass e
                  else JArr [JStr ''Something went wrong.'']),
               messages = None, token = None \<rparr>"
    by (simp add: emitted_def subscribe_def resetPassword_run outcome_transport_failure
          failure_result_def)
next
  show "truthy (getActionEndpoint cfg Logout)
      \<and> http env (request_for cfg Logout JUndefined) = Inl e \<longrightarrow>
      emitted (subscribe (logout_user env cfg)) =
        Some \<lparr> success = False, response = e, redirect = redirect_failure (logout cfg),
               errors =
                 (if isHttpErrorResponse e then errorsGetter cfg Logout e
                  else JArr [JStr ''Something went wrong.'']),
               messages = None, token = None \<rparr>"
    by (simp add: emitted_def subscribe_def logout_user_run outcome_transport_failure
          failure_result_def)
qed

theorem failure_branch_errors_witness:
  "http (env_answering (Inl unknown_email)) (request_for defaultConfig RequestPass JUndefined)
     = Inl unknown_email
   \<and> emitted (subscribe (requestPassword (env_answering (Inl unknown_email)) defaultConfig
         JUndefined)) =
       Some \<lparr> success = False, response = unknown_email, redirect = None,
              errors = JArr [JStr ''Unknown email''], messages = None, token = None \<rparr>
   \<and> http (env_answering (Inl (Error ''offline''))) (request_for defaultConfig RequestPass JUndefined)
     = Inl (Error ''offline'')
   \<and> emitted (subscribe (requestPassword (env_answering (Inl (Error ''offline''))) defaultConfig
         JUndefined)) =
       Some \<lparr> success = False, response = Error ''offline'', redirect = None,
              errors = JArr [JStr ''Something went wrong.''], messages = None, token = None \<rparr>"
proof -
  have a: "http (env_answering (Inl x)) req = Inl x" for x req
    by (simp add: env_answering_def)
  have g: "errorsGetter defaultConfig RequestPass unknown_email = JArr [JStr ''Unknown email'']"
    by (simp add: unknown_email_def default_errors_present getDeepFromObject_def)
  have r: "redirect_failure (requestPass defaultConfig) = None"
    by (simp add: defaultConfig_def)
  have u: "isHttpErrorResponse unknown_email"
    by (simp add: unknown_email_def)
  show ?thesis
    using failure_branch_errors
        [of "env_answering (Inl unknown_email)" defaultConfig JUndefined _ None unknown_email]
      failure_branch_errors
        [of "env_answering (Inl (Error ''offline''))" defaultConfig JUndefined _ None
            "Error ''offline''"]
      a g r u
    by simp
qed




text \<open>
  Claim C8. \<open>resetPassword\<close> sends one request, whose body is the caller's data with the
  field named by \<open>resetPass.resetPasswordTokenKey\<close> set to the query parameter of that
  name; every other field of the caller's data is in the body with its value.
\<close>

theorem resetPassword_injects_token:
  assumes "resetPasswordTokenKey (resetPass cfg) = Some key"
  shows "\<exists>body.
           requests (snd (subscribe (resetPassword env cfg form))) =
             [\<lparr> req_method = http_method (resetPass cfg),
                req_url = getActionEndpoint cfg ResetPass,
                req_body = JObj body \<rparr>]
           \<and> map_of body key = Some (get_prop (queryParams env) key)
           \<and> (\<forall>k. k \<noteq> key \<longrightarrow>
                 map_of body k = map_of (case form of None \<Rightarrow> [] | Some kvs \<Rightarrow> kvs) k)"
proof -
  let ?body = "reset_body env cfg form"
  have "requests (snd (subscribe (resetPassword env cfg form))) =
          [\<lparr> req_method = http_method (resetPass cfg),
             req_url = getActionEndpoint cfg ResetPass,
             req_body = JObj ?body \<rparr>]"
    by (simp add: subscribe_def resetPassword_run request_for_def)
  moreover have "map_of ?body key = Some (get_prop (queryParams env) key)"
    using assms by (simp add: reset_body_def map_of_set_prop)
  moreover have "\<forall>k. k \<noteq> key \<longrightarrow>
      map_of ?body k = map_of (case form of None \<Rightarrow> [] | Some kvs \<Rightarrow> kvs) k"
    using assms by (simp add: reset_body_def map_of_set_prop)
  ultimately show ?thesis
    by (intro exI [of _ "reset_body env cfg form"]) simp
qed

theorem resetPassword_injects_token_witness:
  "resetPasswordTokenKey (resetPass defaultConfig) = Some ''reset_password_token''
   \<and> (\<exists>body.
         map req_body (requests (snd (subscribe
           (resetPassword (env_answering (Inr response_with_token)) defaultConfig
              (Some [(''password'', JStr ''secret''), (''confirmPassword'', JStr ''secret'')])))))
           = [JObj body]
         \<and> map_of body ''reset_password_token'' = Some (JStr ''XYZ'')
         \<and> map_of body ''password'' = Some (JStr ''secret'')
         \<and> map_of body ''confirmPassword'' = Some (JStr ''secret''))"
proof -
  have k: "resetPasswordTokenKey (resetPass defaultConfig) = Some ''reset_password_token''"
    by (simp add: defaultConfig_def)
  have q: "get_prop (queryParams (env_answering (Inr response_with_token)))
             ''reset_password_token'' = JStr ''XYZ''"
    by (simp add: env_answering_def get_prop_def)
  from resetPassword_injects_token [OF k, of "env_answering (Inr response_with_token)"
      "Some [(''password'', JStr ''secret''), (''confirmPassword'', JStr ''secret'')]"]
  obtain body where
    b: "requests (snd (subscribe
           (resetPassword (env_answering (Inr response_with_token)) defaultConfig
              (Some [(''password'', JStr ''secret''), (''confirmPassword'', JStr ''secret'')]))))
         = [\<lparr> req_method = http_method (resetPass defaultConfig),
              req_url = getActionEndpoint defaultConfig ResetPass,
              req_body = JObj body \<rparr>]"
      "map_of body ''reset_password_token'' =
         Some (get_prop (queryParams (env_answering (Inr response_with_token)))
                 ''reset_password_token'')"
      "\<forall>k. k \<noteq> ''reset_password_token'' \<longrightarrow>
         map_of body k =
         map_of [(''password'', JStr ''secret''), (''confirmPassword'', JStr ''secret'')] k"
    by auto
  have "map_of body ''password'' = Some (JStr ''secret'')"
    using b(3) by simp
  moreover have "map_of body ''confirmPassword'' = Some (JStr ''secret'')"
    using b(3) by simp
  ultimately show ?thesis
    using k q b(1,2) by simp
qed

text \<open>
  Claim C9. The field named by \<open>resetPass.resetPasswordTokenKey\<close> is overwritten in
  every case: the body sent has it with the query parameter's value, which is
  \<open>undefined\<close> when the route has no such parameter, whatever the caller had put there.
  The other fields of the caller's data reach the transport as they were, in their order.
\<close>

theorem resetPassword_overwrites_token_field:
  assumes "resetPasswordTokenKey (resetPass cfg) = Some key"
  shows "\<exists>body.
           map req_body (requests (snd (subscribe (resetPassword env cfg form)))) = [JObj body]
           \<and> map_of body key =
               Some (case map_of (queryParams env) key of None \<Rightarrow> JUndefined | Some v \<Rightarrow> v)
           \<and> filter (\<lambda>p. fst p \<noteq> key) body =
               filter (\<lambda>p. fst p \<noteq> key) (case form of None \<Rightarrow> [] | Some kvs \<Rightarrow> kvs)"
proof -
  let ?body = "reset_body env cfg form"
  have "map req_body (requests (snd (subscribe (resetPassword env cfg form)))) = [JObj ?body]"
    by (simp add: subscribe_def resetPassword_run request_for_def)
  moreover have "map_of ?body key =
      Some (case map_of (queryParams env) key of None \<Rightarrow> JUndefined | Some v \<Rightarrow> v)"
    using assms by (simp add: reset_body_def map_of_set_prop get_prop_def)
  moreover have "filter (\<lambda>p. fst p \<noteq> key) ?body =
      filter (\<lambda>p. fst p \<noteq> key) (case form of None \<Rightarrow> [] | Some kvs \<Rightarrow> kvs)"
    using assms by (simp add: reset_body_def filter_set_prop)
  ultimately show ?thesis
    by (intro exI [of _ "reset_body env cfg form"]) simp
qed

theorem resetPassword_overwrites_token_field_witness:
  "resetPasswordTokenKey (resetPass defaultConfig) = Some ''reset_password_token''
   \<and> map_of (queryParams ((env_answering (Inr response_with_token)) \<lparr> queryParams := [] \<rparr>))
        ''reset_password_token'' = None
   \<and> (\<exists>body.
         map req_body (requests (snd (subscribe
           (resetPassword ((env_answering (Inr response_with_token)) \<lparr> queryParams := [] \<rparr>)
              defaultConfig
              (Some [(''reset_password_token'', JStr ''mine''), (''password'', JStr ''secret'')])))))
           = [JObj body]
         \<and> map_of body ''reset_password_token'' = Some JUndefined
         \<and> filter (\<lambda>p. fst p \<noteq> ''reset_password_token'') body = [(''password'', JStr ''secret'')])"
proof -
  have k: "resetPasswordTokenKey (resetPass defaultConfig) = Some ''reset_password_token''"
    by (simp add: defaultConfig_def)
  show ?thesis
    using resetPassword_overwrites_token_field [OF k,
        of "(env_answering (Inr response_with_token)) \<lparr> queryParams := [] \<rparr>"
           "Some [(''reset_password_token'', JStr ''mine''), (''password'', JStr ''secret'')]"] k
    by simp
qed

text \<open>
  Claim C10. For \<open>authenticate\<close>, \<open>register\<close> and \<open>refreshToken\<close>, with \<open>alwaysFail\<close>
  set and a transport that answers with a response: the token getter is not invoked,
  no warning of the token validation is given, and the failure that reaches the failure
  branch, the response of the result, is \<open>createFailResponse(data)\<close>.
\<close>

theorem alwaysFail_before_token_validation:
  "(alwaysFail (login cfg) = Some True \<and> http env (request_for cfg Login data) = Inr res \<longrightarrow>
      TokenGetter \<notin> fst ` set (getter_calls (snd (subscribe (authenticate env cfg data))))
      \<and> warnings (snd (subscribe (authenticate env cfg data))) = []
      \<and> (\<exists>r. emitted (subscribe (authenticate env cfg data)) = Some r
             \<and> \<not> success r \<and> response r = createFailResponse env data)) \<and>
   (alwaysFail (register cfg) = Some True \<and> http env (request_for cfg Register data) = Inr res \<longrightarrow>
      TokenGetter \<notin> fst ` set (getter_calls (snd (subscribe (register_user env cfg data))))
      \<and> warnings (snd (subscribe (register_user env cfg data))) = []
      \<and> (\<exists>r. emitted (subscribe (register_user env cfg data)) = Some r
             \<and> \<not> success r \<and> response r = createFailResponse env data)) \<and>
   (alwaysFail (refreshToken cfg) = Some True \<and> http env (request_for cfg RefreshToken data) = Inr res \<longrightarrow>
      TokenGetter \<notin> fst ` set (getter_calls (snd (subscribe (refresh_token env cfg data))))
      \<and> warnings (snd (subscribe (refresh_token env cfg data))) = []
      \<and> (\<exists>r. emitted (subscribe (refresh_token env cfg data)) = Some r
             \<and> \<not> success r \<and> response r = createFailResponse env data))"
proof (intro conjI)
  show "alwaysFail (login cfg) = Some True \<and> http env (request_for cfg Login data) = Inr res \<longrightarrow>
      TokenGetter \<notin> fst ` set (getter_calls (snd (subscribe (authenticate env cfg data))))
      \<and> warnings (snd (subscribe (authenticate env cfg data))) = []
      \<and> (\<exists>r. emitted (subscribe (authenticate env cfg data)) = Some r
             \<and> \<not> success r \<and> response r = createFailResponse env data)"
    by (auto simp add: emitted_def subscribe_def authenticate_run outcome_alwaysFail_response
          token_action_calls_def token_action_warnings_def failure_calls_def)
next
  show "alwaysFail (register cfg) = Some True \<and> http env (request_for cfg Register data) = Inr res \<longrightarrow>
      TokenGetter \<notin> fst ` set (getter_calls (snd (subscribe (register_user env cfg data))))
      \<and> warnings (snd (subscribe (register_user env cfg data))) = []
      \<and> (\<exists>r. emitted (subscribe (register_user env cfg data)) = Some r
             \<and> \<not> success r \<and> response r = createFailResponse env data)"
    by (auto simp add: emitted_def subscribe_def register_user_run outcome_alwaysFail_response
          token_action_calls_def token_action_warnings_def failure_calls_def)
next
  show "alwaysFail (refreshToken cfg) = Some True \<and> http env (request_for cfg RefreshToken data) = Inr res \<longrightarrow>
      TokenGetter \<notin> fst ` set (getter_calls (snd (subscribe (refresh_token env cfg data))))
      \<and> warnings (snd (subscribe (refresh_token env cfg data))) = []
      \<and> (\<exists>r. emitted (subscribe (refresh_token env cfg data)) = Some r
             \<and> \<not> success r \<and> response r = createFailResponse env data)"
    by (auto simp add: emitted_def subscribe_def refresh_token_run outcome_alwaysFail_response
          token_action_calls_def token_action_warnings_def failure_calls_def)
qed

theorem alwaysFail_before_token_validation_witness:
  "alwaysFail (login config_always_fail) = Some True
   \<and> http (env_answering (Inr response_without_token))
        (request_for config_always_fail Login (JStr ''form'')) = Inr response_without_token
   \<and> \<not> truthy (tokenGetter config_always_fail Login response_without_token)
   \<and> TokenGetter \<notin> fst ` set (getter_calls (snd (subscribe
         (authenticate (env_answering (Inr response_without_token)) config_always_fail
            (JStr ''form'')))))
   \<and> warnings (snd (subscribe
         (authenticate (env_answering (Inr response_without_token)) config_always_fail
            (JStr ''form'')))) = []
   \<and> (\<exists>r. emitted (subscribe
         (authenticate (env_answering (Inr response_without_token)) config_always_fail
            (JStr ''form''))) = Some r
        \<and> \<not> success r
        \<and> response r = HttpResponse 401 (JObj [(''sent'', JStr ''form'')]))"
proof -
  have a: "http (env_answering x) req = x" for x req
    by (simp add: env_answering_def)
  have c: "createFailResponse (env_answering x) d = HttpResponse 401 (JObj [(''sent'', d)])"
    for x d
    by (simp add: env_answering_def)
  have f: "alwaysFail (login config_always_fail) = Some True"
    by (simp add: config_always_fail_def)
  have t: "\<not> truthy (tokenGetter config_always_fail Login response_without_token)"
    by (simp add: response_without_token_def tokenGetter_def default_token_getter_def
          getDeepFromObject_def config_always_fail_def defaultConfig_def)
  show ?thesis
    using alwaysFail_before_token_validation
        [of config_always_fail "env_answering (Inr response_without_token)" "JStr ''form''"
            response_without_token]
      a c f t
    by simp
qed

end
